theory Spec2Isabelle
  imports Complex_Main
begin

section \<open>Errors raised by the Python code\<close>

text \<open>
  Every \<^verbatim>\<open>raise\<close> of the source, and every failure of the tensor runtime that the
  modelled statements can trigger, is a value of this type; a function that can fail
  returns \<open>error + 'a\<close> with \<open>Inl\<close> carrying the error.
\<close>

datatype error =
    RuntimeError
  | ValueError string
  | NotImplementedError string
  | AttributeError
  | TypeError
  | IndexError

section \<open>The attention mask of \<^verbatim>\<open>_TFTModule\<close>\<close>

text \<open>
  \<^verbatim>\<open>torch.arange(n)\<close> is the tensor \<open>0, 1, ..., n - 1\<close>; a negative bound is refused by
  the runtime.
\<close>

definition arange :: "int \<Rightarrow> error + int list" where
  "arange n = (if n < 0 then Inl RuntimeError else Inr (map int [0..<nat n]))"

text \<open>\<^verbatim>\<open>Tensor.max()\<close> of a one-dimensional tensor; it raises on an empty tensor.\<close>

definition tensor_max :: "int list \<Rightarrow> error + int" where
  "tensor_max xs = (case xs of [] \<Rightarrow> Inl RuntimeError | x # ys \<Rightarrow> Inr (fold max ys x))"

text \<open>
  \<^verbatim>\<open>create_mask(size, lengths, inverse)\<close>: the comparison of the row vector
  \<^verbatim>\<open>arange(size).unsqueeze(0)\<close> with the column vector \<^verbatim>\<open>lengths.unsqueeze(-1)\<close>
  broadcasts to one row per entry of \<^verbatim>\<open>lengths\<close>.
\<close>

definition create_mask :: "int \<Rightarrow> int list \<Rightarrow> bool \<Rightarrow> error + bool list list" where
  "create_mask size_arg lengths inv_flag =
     (case arange size_arg of
        Inl e \<Rightarrow> Inl e
      | Inr steps \<Rightarrow>
          if inv_flag then Inr (map (\<lambda>l. map (\<lambda>j. j < l) steps) lengths)
          else Inr (map (\<lambda>l. map (\<lambda>j. j \<ge> l) steps) lengths))"

text \<open>
  \<^verbatim>\<open>get_attention_mask(encoder_lengths, decoder_length, device)\<close>.
  \<^verbatim>\<open>decoder_mask = attend_step >= predict_step\<close> has one row per predicted step
  (\<^verbatim>\<open>predict_step\<close> is the column vector) and one column per attended step.
  The encoder mask is repeated for every predicted step, the decoder mask for every
  sample, and the two are concatenated along the attended time axis.
\<close>

definition get_attention_mask :: "int list \<Rightarrow> int \<Rightarrow> error + bool list list list" where
  "get_attention_mask encoder_lengths decoder_length =
     (case arange decoder_length of
        Inl e \<Rightarrow> Inl e
      | Inr attend_step \<Rightarrow>
     (case arange decoder_length of
        Inl e \<Rightarrow> Inl e
      | Inr predict_step \<Rightarrow>
     (let decoder_mask = map (\<lambda>p. map (\<lambda>a. a \<ge> p) attend_step) predict_step in
     (case tensor_max encoder_lengths of
        Inl e \<Rightarrow> Inl e
      | Inr max_len \<Rightarrow>
     (case create_mask max_len encoder_lengths False of
        Inl e \<Rightarrow> Inl e
      | Inr encoder_mask \<Rightarrow>
          Inr (map (\<lambda>enc_row. map (\<lambda>dec_row. enc_row @ dec_row) decoder_mask)
                 encoder_mask))))))"

text \<open>
  The entry as the specification words it: disallowed exactly at a padded encoder step
  or at a decoder step strictly after the query step. \<open>enc\<close> is the width of the encoder
  part of the key axis.
\<close>

definition claimed_mask_entry :: "int list \<Rightarrow> nat \<Rightarrow> nat \<Rightarrow> nat \<Rightarrow> nat \<Rightarrow> bool" where
  "claimed_mask_entry encoder_lengths enc i q k =
     (if k < enc then int k \<ge> encoder_lengths ! i else k - enc > q)"

section \<open>Tensor shapes\<close>

text \<open>
  The rollout of \<^verbatim>\<open>TFTModel\<close> only slices, rolls, concatenates and overwrites
  three-dimensional tensors; whether each of these statements succeeds, and the shape of
  its result, is decided by the shapes of its operands. A tensor is therefore modelled by
  its shape \<open>(batch, time, components)\<close>.
\<close>

type_synonym shape = "nat \<times> nat \<times> nat"

definition bind_err :: "error + 'a \<Rightarrow> ('a \<Rightarrow> error + 'b) \<Rightarrow> error + 'b" where
  "bind_err m f = (case m of Inl e \<Rightarrow> Inl e | Inr x \<Rightarrow> f x)"

text \<open>
  Python slicing \<^verbatim>\<open>[start:stop]\<close> on an axis of length \<open>len\<close>: a negative bound counts
  from the end, every bound is clipped to the axis, and an empty range is an empty slice.
\<close>

definition slice_bound :: "nat \<Rightarrow> int \<Rightarrow> int" where
  "slice_bound len i = (if i < 0 then max 0 (int len + i) else min i (int len))"

definition slice_len :: "nat \<Rightarrow> int option \<Rightarrow> int option \<Rightarrow> nat" where
  "slice_len len start stop =
     (let lo = (case start of None \<Rightarrow> 0 | Some i \<Rightarrow> slice_bound len i);
          hi = (case stop of None \<Rightarrow> int len | Some i \<Rightarrow> slice_bound len i)
      in nat (hi - lo))"

definition slice_time :: "shape \<Rightarrow> int option \<Rightarrow> int option \<Rightarrow> shape" where
  "slice_time x start stop = (case x of (b, t, f) \<Rightarrow> (b, slice_len t start stop, f))"

definition slice_comp :: "shape \<Rightarrow> int option \<Rightarrow> int option \<Rightarrow> shape" where
  "slice_comp x start stop = (case x of (b, t, f) \<Rightarrow> (b, t, slice_len f start stop))"

text \<open>
  \<^verbatim>\<open>torch.cat(tensors, dim)\<close>: the list must not be empty and the tensors must agree on
  every axis but \<^verbatim>\<open>dim\<close>.
\<close>

fun cat_comp :: "shape list \<Rightarrow> error + shape" where
  "cat_comp [] = Inl RuntimeError"
| "cat_comp [x] = Inr x"
| "cat_comp ((b, t, f) # xs) =
     bind_err (cat_comp xs) (\<lambda>(b', t', f').
       if b = b' \<and> t = t' then Inr (b, t, f + f') else Inl RuntimeError)"

fun cat_time :: "shape list \<Rightarrow> error + shape" where
  "cat_time [] = Inl RuntimeError"
| "cat_time [x] = Inr x"
| "cat_time ((b, t, f) # xs) =
     bind_err (cat_time xs) (\<lambda>(b', t', f').
       if b = b' \<and> f = f' then Inr (b, t + t', f) else Inl RuntimeError)"

text \<open>
  An assignment \<^verbatim>\<open>target[...] = value\<close> succeeds when \<^verbatim>\<open>value\<close> broadcasts to the
  selected region: on every axis the sizes agree or the value has size one.
\<close>

definition broadcastable :: "shape \<Rightarrow> shape \<Rightarrow> bool" where
  "broadcastable region v =
     (case (region, v) of ((b, t, f), (b', t', f')) \<Rightarrow>
        (b' = b \<or> b' = 1) \<and> (t' = t \<or> t' = 1) \<and> (f' = f \<or> f' = 1))"

definition setitem :: "shape \<Rightarrow> shape \<Rightarrow> shape \<Rightarrow> error + shape" where
  "setitem target region v = (if broadcastable region v then Inr target else Inl RuntimeError)"

text \<open>Subscripting a value that may be \<^verbatim>\<open>None\<close>.\<close>

definition subscript :: "shape option \<Rightarrow> error + shape" where
  "subscript x = (case x of None \<Rightarrow> Inl TypeError | Some s \<Rightarrow> Inr s)"

text \<open>
  What a call of the network returns: one tensor, or a Python list of tensors (one for
  each target) when the module was built for several targets.
\<close>

datatype model_output = Single shape | Multi "shape list"

section \<open>\<^verbatim>\<open>_TFTModule\<close>: the objects it owns\<close>

text \<open>
  Sub-networks are Python objects: two attributes may hold the same object. An object
  is a cell of a heap, named by its address; constructing a layer allocates a new cell.
  The cell records the class and the constructor arguments.
\<close>

type_synonym ref = nat

datatype module_obj =
    Linear int int
  | GatedResidualNetwork int int int "int option" "rat option"
  | VariableSelectionNetwork "(string \<times> int) list" int "rat option" "int option"
      "(string \<times> ref) list" "(string \<times> ref) list"
  | LSTM int int int rat
  | GatedLinearUnit int "rat option"
  | AddNorm int
  | GateAddNorm int "rat option"
  | InterpretableMultiHeadAttention int int rat

type_synonym heap = "module_obj list"

definition alloc :: "module_obj \<Rightarrow> heap \<Rightarrow> ref \<times> heap" where
  "alloc obj h = (length h, h @ [obj])"

text \<open>
  A Python \<^verbatim>\<open>dict\<close> (and an \<^verbatim>\<open>nn.ModuleDict\<close>) keeps its keys in the order of their
  first insertion; assigning to a key that is present replaces the value in place.
\<close>

definition dict_set :: "('k \<times> 'v) list \<Rightarrow> 'k \<Rightarrow> 'v \<Rightarrow> ('k \<times> 'v) list" where
  "dict_set d k v =
     (if k \<in> fst ` set d then map (\<lambda>(k', v'). if k' = k then (k', v) else (k', v')) d
      else d @ [(k, v)])"

text \<open>\<^verbatim>\<open>{name: f(name) for name in names}\<close>\<close>

definition dict_comprehension :: "('k \<Rightarrow> 'v) \<Rightarrow> 'k list \<Rightarrow> ('k \<times> 'v) list" where
  "dict_comprehension f names = fold (\<lambda>name d. dict_set d name (f name)) names []"

text \<open>\<^verbatim>\<open>d.get(k, default)\<close>\<close>

definition dict_get :: "('k \<times> 'v) list \<Rightarrow> 'k \<Rightarrow> 'v \<Rightarrow> 'v" where
  "dict_get d k default_value = (case map_of d k of None \<Rightarrow> default_value | Some v \<Rightarrow> v)"

text \<open>
  \<^verbatim>\<open>{name: Layer(...) for name in names}\<close>: every iteration constructs a layer, also for
  a name seen before.
\<close>

definition alloc_dict ::
  "(string \<Rightarrow> module_obj) \<Rightarrow> string list \<Rightarrow> heap \<Rightarrow> (string \<times> ref) list \<times> heap" where
  "alloc_dict mk names h =
     fold (\<lambda>name (d, h). let (r, h') = alloc (mk name) h in (dict_set d name r, h'))
       names ([], h)"

text \<open>
  Modelled from the spec: \<^verbatim>\<open>VariableSelectionNetwork\<close> is imported from
  \<^verbatim>\<open>tft_submodels_darts\<close>, which is not part of the sources. Of its constructor only
  the choice of the per-feature gating sub-network is modelled: a feature whose name is
  in the \<^verbatim>\<open>single_variable_grns\<close> it is given reuses that sub-network, any other
  feature gets a sub-network of its own.
\<close>

definition VariableSelectionNetwork_init ::
  "(string \<times> int) list \<Rightarrow> int \<Rightarrow> rat option \<Rightarrow> int option \<Rightarrow> (string \<times> ref) list \<Rightarrow>
   (string \<times> ref) list \<Rightarrow> heap \<Rightarrow> ref \<times> heap" where
  "VariableSelectionNetwork_init input_sizes hidden dropout_arg context_size prescalers_arg
     single_variable_grns h =
     (let (grns, h1) =
            fold (\<lambda>(name, input_size) (d, h).
                    case map_of single_variable_grns name of
                      Some r \<Rightarrow> (dict_set d name r, h)
                    | None \<Rightarrow>
                        let (r, h') =
                              alloc (GatedResidualNetwork input_size (min input_size hidden)
                                       hidden None dropout_arg) h
                        in (dict_set d name r, h'))
              input_sizes ([], h)
      in alloc (VariableSelectionNetwork input_sizes hidden dropout_arg context_size
                  prescalers_arg grns) h1)"

text \<open>The per-feature gating sub-networks of the variable selection network at \<open>r\<close>.\<close>

definition single_variable_grns_of :: "heap \<Rightarrow> ref \<Rightarrow> (string \<times> ref) list" where
  "single_variable_grns_of h r =
     (if r < length h then
        (case h ! r of
           VariableSelectionNetwork input_sizes hidden dropout_arg context_size prescalers_arg grns
             \<Rightarrow> grns
         | _ \<Rightarrow> [])
      else [])"

section \<open>\<^verbatim>\<open>_TFTModule\<close>: construction\<close>

record model_config =
  reals_input :: "string list"
  time_varying_encoder_input :: "string list"
  time_varying_decoder_input :: "string list"
  static_input :: "string list"

record variables =
  input :: "(string \<times> string list) list"
  model_config :: model_config

text \<open>\<^verbatim>\<open>output_size: Union[int, List[int]]\<close>.\<close>

datatype output_size = Width int | Widths "int list"

text \<open>\<^verbatim>\<open>self.output_layer\<close> is one linear layer or an \<^verbatim>\<open>nn.ModuleList\<close> of them.\<close>

datatype output_layer = Layer ref | LayerList "ref list"

text \<open>
  The attributes of \<^verbatim>\<open>_TFTModule\<close> that the constructor or \<^verbatim>\<open>forward\<close> reads. The
  attributes for categorical variables, logging and the optimiser are stored by the
  constructor and read nowhere; they are left out.
\<close>

record tft_module =
  input_dim :: int
  output_dim :: int
  input_chunk_length :: int
  output_chunk_length :: int
  variables :: variables
  hidden_size :: int
  lstm_layers :: int
  dropout :: rat
  output_size :: output_size
  attention_head_size :: int
  max_encoder_length :: int
  hidden_continuous_size :: int
  hidden_continuous_sizes :: "(string \<times> int) list"
  share_single_variable_networks :: bool
  n_targets :: int
  prescalers :: "(string \<times> ref) list"
  static_variable_selection :: ref
  shared_single_variable_grns :: "(string \<times> ref) list option"
  encoder_variable_selection :: ref
  decoder_variable_selection :: ref
  static_context_variable_selection :: ref
  static_context_initial_hidden_lstm :: ref
  static_context_initial_cell_lstm :: ref
  static_context_enrichment :: ref
  lstm_encoder :: ref
  lstm_decoder :: ref
  post_lstm_gate_encoder :: ref
  post_lstm_gate_decoder :: ref
  post_lstm_add_norm_encoder :: ref
  post_lstm_add_norm_decoder :: ref
  static_enrichment :: ref
  multihead_attn :: ref
  post_attn_gate_norm :: ref
  pos_wise_ff :: ref
  pre_output_gate_norm :: ref
  output_layer :: output_layer

text \<open>
  The two loops that fill \<^verbatim>\<open>self.shared_single_variable_grns\<close>: every encoder
  feature gets a new sub-network, then every decoder feature whose name is not a key yet.
\<close>

definition build_shared_single_variable_grns ::
  "(string \<times> int) list \<Rightarrow> (string \<times> int) list \<Rightarrow> int \<Rightarrow> rat \<Rightarrow> heap \<Rightarrow>
   (string \<times> ref) list \<times> heap" where
  "build_shared_single_variable_grns encoder_input_sizes decoder_input_sizes hidden dropout_arg h =
     (let (d1, h1) =
            fold (\<lambda>(name, input_size) (d, h).
                    let (r, h') =
                          alloc (GatedResidualNetwork input_size (min input_size hidden)
                                   hidden None (Some dropout_arg)) h
                    in (dict_set d name r, h'))
              encoder_input_sizes ([], h)
      in fold (\<lambda>(name, input_size) (d, h).
                 if name \<notin> fst ` set d then
                   let (r, h') =
                         alloc (GatedResidualNetwork input_size (min input_size hidden)
                                  hidden None (Some dropout_arg)) h
                   in (dict_set d name r, h')
                 else (d, h))
           decoder_input_sizes (d1, h1))"

text \<open>
  The output head: a list of layers for several targets, which needs a list of widths
  to iterate over, and one layer otherwise, which needs one width.
\<close>

definition build_output_layer :: "int \<Rightarrow> int \<Rightarrow> output_size \<Rightarrow> heap \<Rightarrow> error + output_layer \<times> heap" where
  "build_output_layer n_targets_arg hidden osz h =
     (if n_targets_arg > 1 then
        (case osz of
           Width w \<Rightarrow> Inl TypeError
         | Widths ws \<Rightarrow>
             Inr (let (rs, h') =
                        fold (\<lambda>w (rs, h). let (r, h') = alloc (Linear hidden w) h in (rs @ [r], h'))
                          ws ([], h)
                  in (LayerList rs, h')))
      else
        (case osz of
           Width w \<Rightarrow> Inr (let (r, h') = alloc (Linear hidden w) h in (Layer r, h'))
         | Widths ws \<Rightarrow> Inl TypeError))"

text \<open>
  \<^verbatim>\<open>_TFTModule.__init__\<close>, statement by statement; the heap is passed along. The
  assignments \<^verbatim>\<open>self.post_lstm_gate_decoder = self.post_lstm_gate_encoder\<close> and
  \<^verbatim>\<open>self.post_lstm_add_norm_decoder = self.post_lstm_add_norm_encoder\<close> copy an
  address and allocate nothing.
\<close>

definition TFTModule_init ::
  "variables \<Rightarrow> int \<Rightarrow> int \<Rightarrow> int \<Rightarrow> int \<Rightarrow> output_size \<Rightarrow> int \<Rightarrow> int \<Rightarrow> rat \<Rightarrow> int \<Rightarrow> int \<Rightarrow>
   int \<Rightarrow> (string \<times> int) list \<Rightarrow> bool \<Rightarrow> heap \<Rightarrow> error + tft_module \<times> heap" where
  "TFTModule_init variables_arg input_dim_arg output_dim_arg input_chunk_length_arg
     output_chunk_length_arg output_size_arg hidden_size_arg lstm_layers_arg dropout_arg
     attention_head_size_arg max_encoder_length_arg hidden_continuous_size_arg
     hidden_continuous_sizes_arg share_single_variable_networks_arg h0 =
     (let cfg = model_config variables_arg;
          size_of = (\<lambda>name. dict_get hidden_continuous_sizes_arg name hidden_continuous_size_arg);
          grn = (\<lambda>context. GatedResidualNetwork hidden_size_arg hidden_size_arg hidden_size_arg
                              context (Some dropout_arg));
          lstm_dropout = (if lstm_layers_arg > 1 then dropout_arg else 0);
          (prescalers_v, h1) = alloc_dict (\<lambda>name. Linear 1 (size_of name)) (reals_input cfg) h0;
          static_input_sizes = dict_comprehension size_of (static_input cfg);
          (static_variable_selection_v, h2) =
            VariableSelectionNetwork_init static_input_sizes hidden_size_arg (Some dropout_arg)
              None prescalers_v [] h1;
          encoder_input_sizes = dict_comprehension size_of (time_varying_encoder_input cfg);
          decoder_input_sizes = dict_comprehension size_of (time_varying_decoder_input cfg);
          (shared_v, h3) =
            (if share_single_variable_networks_arg then
               (let (d, h) = build_shared_single_variable_grns encoder_input_sizes
                               decoder_input_sizes hidden_size_arg dropout_arg h2
                in (Some d, h))
             else (None, h2));
          (encoder_variable_selection_v, h4) =
            VariableSelectionNetwork_init encoder_input_sizes hidden_size_arg (Some dropout_arg)
              (Some hidden_size_arg) prescalers_v
              (case shared_v of None \<Rightarrow> [] | Some d \<Rightarrow> d) h3;
          (decoder_variable_selection_v, h5) =
            VariableSelectionNetwork_init decoder_input_sizes hidden_size_arg (Some dropout_arg)
              (Some hidden_size_arg) prescalers_v
              (case shared_v of None \<Rightarrow> [] | Some d \<Rightarrow> d) h4;
          (static_context_variable_selection_v, h6) = alloc (grn None) h5;
          (static_context_initial_hidden_lstm_v, h7) = alloc (grn None) h6;
          (static_context_initial_cell_lstm_v, h8) = alloc (grn None) h7;
          (static_context_enrichment_v, h9) = alloc (grn None) h8;
          (lstm_encoder_v, h10) =
            alloc (LSTM hidden_size_arg hidden_size_arg lstm_layers_arg lstm_dropout) h9;
          (lstm_decoder_v, h11) =
            alloc (LSTM hidden_size_arg hidden_size_arg lstm_layers_arg lstm_dropout) h10;
          (post_lstm_gate_encoder_v, h12) =
            alloc (GatedLinearUnit hidden_size_arg (Some dropout_arg)) h11;
          post_lstm_gate_decoder_v = post_lstm_gate_encoder_v;
          (post_lstm_add_norm_encoder_v, h13) = alloc (AddNorm hidden_size_arg) h12;
          post_lstm_add_norm_decoder_v = post_lstm_add_norm_encoder_v;
          (static_enrichment_v, h14) = alloc (grn (Some hidden_size_arg)) h13;
          (multihead_attn_v, h15) =
            alloc (InterpretableMultiHeadAttention hidden_size_arg attention_head_size_arg
                     dropout_arg) h14;
          (post_attn_gate_norm_v, h16) = alloc (GateAddNorm hidden_size_arg (Some dropout_arg)) h15;
          (pos_wise_ff_v, h17) = alloc (grn None) h16;
          (pre_output_gate_norm_v, h18) = alloc (GateAddNorm hidden_size_arg None) h17
      in
      (case build_output_layer output_dim_arg hidden_size_arg output_size_arg h18 of
         Inl e \<Rightarrow> Inl e
       | Inr (output_layer_v, h19) \<Rightarrow>
           Inr (\<lparr> input_dim = input_dim_arg,
                  output_dim = output_dim_arg,
                  input_chunk_length = input_chunk_length_arg,
                  output_chunk_length = output_chunk_length_arg,
                  variables = variables_arg,
                  hidden_size = hidden_size_arg,
                  lstm_layers = lstm_layers_arg,
                  dropout = dropout_arg,
                  output_size = output_size_arg,
                  attention_head_size = attention_head_size_arg,
                  max_encoder_length = max_encoder_length_arg,
                  hidden_continuous_size = hidden_continuous_size_arg,
                  hidden_continuous_sizes = hidden_continuous_sizes_arg,
                  share_single_variable_networks = share_single_variable_networks_arg,
                  n_targets = output_dim_arg,
                  prescalers = prescalers_v,
                  static_variable_selection = static_variable_selection_v,
                  shared_single_variable_grns = shared_v,
                  encoder_variable_selection = encoder_variable_selection_v,
                  decoder_variable_selection = decoder_variable_selection_v,
                  static_context_variable_selection = static_context_variable_selection_v,
                  static_context_initial_hidden_lstm = static_context_initial_hidden_lstm_v,
                  static_context_initial_cell_lstm = static_context_initial_cell_lstm_v,
                  static_context_enrichment = static_context_enrichment_v,
                  lstm_encoder = lstm_encoder_v,
                  lstm_decoder = lstm_decoder_v,
                  post_lstm_gate_encoder = post_lstm_gate_encoder_v,
                  post_lstm_gate_decoder = post_lstm_gate_decoder_v,
                  post_lstm_add_norm_encoder = post_lstm_add_norm_encoder_v,
                  post_lstm_add_norm_decoder = post_lstm_add_norm_decoder_v,
                  static_enrichment = static_enrichment_v,
                  multihead_attn = multihead_attn_v,
                  post_attn_gate_norm = post_attn_gate_norm_v,
                  pos_wise_ff = pos_wise_ff_v,
                  pre_output_gate_norm = pre_output_gate_norm_v,
                  output_layer = output_layer_v \<rparr>, h19)))"

text \<open>The properties of \<^verbatim>\<open>_TFTModule\<close>.\<close>

definition reals :: "tft_module \<Rightarrow> string list" where
  "reals self = reals_input (model_config (variables self))"

definition categoricals :: "tft_module \<Rightarrow> error + string list" where
  "categoricals self = Inl (NotImplementedError ''TFT does not yet support categorical variables'')"

definition static_variables :: "tft_module \<Rightarrow> string list" where
  "static_variables self = static_input (model_config (variables self))"

definition encoder_variables :: "tft_module \<Rightarrow> string list" where
  "encoder_variables self = time_varying_encoder_input (model_config (variables self))"

definition decoder_variables :: "tft_module \<Rightarrow> string list" where
  "decoder_variables self = time_varying_decoder_input (model_config (variables self))"

text \<open>Whether a cell of the heap holds a gated residual network.\<close>

fun is_GatedResidualNetwork :: "module_obj \<Rightarrow> bool" where
  "is_GatedResidualNetwork (GatedResidualNetwork input_size hidden output context dropout_arg) = True"
| "is_GatedResidualNetwork obj = False"

section \<open>\<^verbatim>\<open>_TFTModule.forward\<close>\<close>

text \<open>
  In the forward pass a tensor is modelled by its shape, the list of its dimensions.
  The layers the module owns are not part of the sources: calling the layer at an
  address is a parameter \<open>layers\<close>, which gets the state \<open>'s\<close> of all layers (their
  parameters and buffers) and the argument tensors, and returns the result tensors, or
  an exception, together with the state it leaves behind.
\<close>

type_synonym tshape = "nat list"

type_synonym 's layers = "ref \<Rightarrow> 's \<Rightarrow> tshape list \<Rightarrow> (error + tshape list) \<times> 's"

text \<open>A statement that may raise and may change the state of the layers.\<close>

type_synonym ('a, 's) stmt = "'s \<Rightarrow> (error + 'a) \<times> 's"

definition bind_st :: "('a, 's) stmt \<Rightarrow> ('a \<Rightarrow> ('b, 's) stmt) \<Rightarrow> ('b, 's) stmt" where
  "bind_st m f s = (case m s of (Inl e, s') \<Rightarrow> (Inl e, s') | (Inr a, s') \<Rightarrow> f a s')"

text \<open>A tensor operation of the forward pass itself: it reads no layer.\<close>

definition pure_op :: "error + 'a \<Rightarrow> ('a, 's) stmt" where
  "pure_op r s = (r, s)"

definition call_layer :: "'s layers \<Rightarrow> ref \<Rightarrow> tshape list \<Rightarrow> (tshape list, 's) stmt" where
  "call_layer layers r args s = layers r s args"

text \<open>Unpacking the value a layer returns into one, two or three tensors.\<close>

definition unpack1 :: "tshape list \<Rightarrow> error + tshape" where
  "unpack1 ys = (case ys of [a] \<Rightarrow> Inr a | _ \<Rightarrow> Inl TypeError)"

definition unpack2 :: "tshape list \<Rightarrow> error + tshape \<times> tshape" where
  "unpack2 ys = (case ys of [a, b] \<Rightarrow> Inr (a, b) | _ \<Rightarrow> Inl TypeError)"

definition unpack3 :: "tshape list \<Rightarrow> error + tshape \<times> tshape \<times> tshape" where
  "unpack3 ys = (case ys of [a, b, c] \<Rightarrow> Inr (a, b, c) | _ \<Rightarrow> Inl TypeError)"

definition call1 :: "'s layers \<Rightarrow> ref \<Rightarrow> tshape list \<Rightarrow> (tshape, 's) stmt" where
  "call1 layers r args = bind_st (call_layer layers r args) (\<lambda>ys. pure_op (unpack1 ys))"

text \<open>\<^verbatim>\<open>torch.cat(tensors, dim)\<close> on shapes of any rank.\<close>

fun cat_dim :: "nat \<Rightarrow> tshape list \<Rightarrow> error + tshape" where
  "cat_dim k [] = Inl RuntimeError"
| "cat_dim k [x] = (if k < length x then Inr x else Inl IndexError)"
| "cat_dim k (x # xs) =
     bind_err (cat_dim k xs) (\<lambda>y.
       if k < length x \<and> length x = length y \<and> x[k := 0] = y[k := 0]
       then Inr (x[k := x ! k + y ! k]) else Inl RuntimeError)"

text \<open>\<^verbatim>\<open>x[..., idx].unsqueeze(-1)\<close>: one column of the last axis, kept as an axis.\<close>

definition select_column :: "tshape \<Rightarrow> nat \<Rightarrow> error + tshape" where
  "select_column x idx =
     (if x \<noteq> [] \<and> idx < last x then Inr (butlast x @ [1]) else Inl IndexError)"

text \<open>\<^verbatim>\<open>x[:, start:stop]\<close>: a slice of the second axis.\<close>

definition slice_axis1 :: "tshape \<Rightarrow> int option \<Rightarrow> int option \<Rightarrow> error + tshape" where
  "slice_axis1 x start stop =
     (case x of
        b # t # rest \<Rightarrow> Inr (b # slice_len t start stop # rest)
      | _ \<Rightarrow> Inl IndexError)"

text \<open>\<^verbatim>\<open>torch.zeros((b, n))\<close>: a negative dimension is refused.\<close>

definition zeros2 :: "nat \<Rightarrow> int \<Rightarrow> error + tshape" where
  "zeros2 b n = (if n < 0 then Inl RuntimeError else Inr [b, nat n])"

text \<open>
  \<^verbatim>\<open>expand_static_context\<close>: \<^verbatim>\<open>context[:, None].expand(-1, timesteps, -1)\<close>. The three
  sizes fit a context of two axes.
\<close>

definition expand_static_context :: "tshape \<Rightarrow> int \<Rightarrow> error + tshape" where
  "expand_static_context context timesteps =
     (case context of
        [b, h] \<Rightarrow> if timesteps < 0 then Inl RuntimeError else Inr [b, nat timesteps, h]
      | _ \<Rightarrow> Inl RuntimeError)"

text \<open>
  \<^verbatim>\<open>t.expand(lstm_layers, -1, -1)\<close>: a new leading axis for a tensor of two axes; a
  leading axis of size one, or of the size asked for, for a tensor of three.
\<close>

definition expand_layers :: "tshape \<Rightarrow> int \<Rightarrow> error + tshape" where
  "expand_layers t n =
     (if n < 0 then Inl RuntimeError
      else case t of
             [b, h] \<Rightarrow> Inr [nat n, b, h]
           | [a, b, h] \<Rightarrow> if a = 1 \<or> a = nat n then Inr [nat n, b, h] else Inl RuntimeError
           | _ \<Rightarrow> Inl RuntimeError)"

text \<open>\<^verbatim>\<open>t.shape[0]\<close> of a tensor that may be \<^verbatim>\<open>None\<close>.\<close>

definition shape0 :: "tshape option \<Rightarrow> error + nat" where
  "shape0 t = (case t of None \<Rightarrow> Inl AttributeError | Some [] \<Rightarrow> Inl IndexError
               | Some (b # rest) \<Rightarrow> Inr b)"

text \<open>
  \<^verbatim>\<open>{name: x[..., idx].unsqueeze(-1) for idx, name in enumerate(names)}\<close>, and the
  second comprehension, which looks every name up again.
\<close>

fun input_vectors :: "tshape \<Rightarrow> (nat \<times> string) list \<Rightarrow> (string \<times> tshape) list \<Rightarrow>
                      error + (string \<times> tshape) list" where
  "input_vectors x [] d = Inr d"
| "input_vectors x ((idx, name) # rest) d =
     bind_err (select_column x idx) (\<lambda>column. input_vectors x rest (dict_set d name column))"

fun lookup_all :: "(string \<times> tshape) list \<Rightarrow> string list \<Rightarrow> (string \<times> tshape) list \<Rightarrow>
                   error + (string \<times> tshape) list" where
  "lookup_all vectors [] d = Inr d"
| "lookup_all vectors (name # rest) d =
     (case map_of vectors name of
        None \<Rightarrow> Inl (ValueError name)
      | Some t \<Rightarrow> lookup_all vectors rest (dict_set d name t))"

text \<open>The shape of the mask \<^verbatim>\<open>get_attention_mask\<close> returns.\<close>

definition mask_shape :: "int list \<Rightarrow> int \<Rightarrow> error + tshape" where
  "mask_shape encoder_lengths decoder_length =
     bind_err (get_attention_mask encoder_lengths decoder_length) (\<lambda>mask.
     bind_err (tensor_max encoder_lengths) (\<lambda>longest.
       Inr [length mask, nat decoder_length, nat longest + nat decoder_length]))"

text \<open>
  \<^verbatim>\<open>[output_layer(output) for output_layer in self.output_layer]\<close>: the layers are
  called one after the other.
\<close>

fun call_each :: "'s layers \<Rightarrow> ref list \<Rightarrow> tshape \<Rightarrow> (tshape list, 's) stmt" where
  "call_each layers [] x = pure_op (Inr [])"
| "call_each layers (r # rs) x =
     bind_st (call1 layers r [x]) (\<lambda>y.
     bind_st (call_each layers rs x) (\<lambda>ys. pure_op (Inr (y # ys))))"

datatype forward_output = Tensor tshape | TensorList "tshape list"

text \<open>
  \<^verbatim>\<open>forward(self, x)\<close>, statement by statement. \<^verbatim>\<open>static_covariates\<close> is \<^verbatim>\<open>None\<close>, so
  the static embedding is the zero tensor; the empty tensor
  \<^verbatim>\<open>static_variable_selection\<close> and the length tensors are built and, but for the
  lengths handed to the LSTMs and to the mask, not used. Iterating a single linear
  layer, and calling a list of layers, both raise.
\<close>

definition forward ::
  "'s layers \<Rightarrow> tft_module \<Rightarrow> tshape option \<times> tshape option \<times> tshape option \<times> tshape option \<Rightarrow>
   (forward_output, 's) stmt" where
  "forward layers self x =
     (case x of (past_target, past_covariates, historic_future_covariates, future_covariates) \<Rightarrow>
      bind_st (pure_op (cat_dim 2
        (List.map_filter id [past_target, past_covariates, historic_future_covariates])))
        (\<lambda>x_cont_past.
      bind_st (pure_op (cat_dim 2 (List.map_filter id [future_covariates]))) (\<lambda>x_cont_future.
      bind_st (pure_op (shape0 past_target)) (\<lambda>batch.
      bind_st (pure_op (shape0 future_covariates)) (\<lambda>batch_future.
      let encoder_lengths = replicate batch (input_chunk_length self);
          decoder_lengths = replicate batch_future (output_chunk_length self);
          timesteps = input_chunk_length self + output_chunk_length self;
          max_encoder_length_v = input_chunk_length self
      in
      bind_st (pure_op (input_vectors x_cont_past (enumerate 0 (encoder_variables self)) []))
        (\<lambda>input_vectors_past.
      bind_st (pure_op (input_vectors x_cont_future (enumerate 0 (decoder_variables self)) []))
        (\<lambda>input_vectors_future.
      bind_st (pure_op (zeros2 batch (hidden_size self))) (\<lambda>static_embedding.
      bind_st (call1 layers (static_context_variable_selection self) [static_embedding])
        (\<lambda>context.
      bind_st (pure_op (expand_static_context context timesteps))
        (\<lambda>static_context_variable_selection_v.
      bind_st (pure_op (lookup_all input_vectors_past (encoder_variables self) []))
        (\<lambda>embeddings_varying_encoder_in.
      bind_st (pure_op (slice_axis1 static_context_variable_selection_v None
                          (Some max_encoder_length_v))) (\<lambda>encoder_context.
      bind_st (call_layer layers (encoder_variable_selection self)
                 (map snd embeddings_varying_encoder_in @ [encoder_context])) (\<lambda>ys.
      bind_st (pure_op (unpack2 ys)) (\<lambda>(embeddings_varying_encoder, encoder_sparse_weights).
      bind_st (pure_op (lookup_all input_vectors_future (decoder_variables self) []))
        (\<lambda>embeddings_varying_decoder_in.
      bind_st (pure_op (slice_axis1 static_context_variable_selection_v
                          (Some max_encoder_length_v) None)) (\<lambda>decoder_context.
      bind_st (call_layer layers (decoder_variable_selection self)
                 (map snd embeddings_varying_decoder_in @ [decoder_context])) (\<lambda>ys.
      bind_st (pure_op (unpack2 ys)) (\<lambda>(embeddings_varying_decoder, decoder_sparse_weights).
      bind_st (call1 layers (static_context_initial_hidden_lstm self) [static_embedding])
        (\<lambda>hidden0.
      bind_st (pure_op (expand_layers hidden0 (lstm_layers self))) (\<lambda>input_hidden.
      bind_st (call1 layers (static_context_initial_cell_lstm self) [static_embedding])
        (\<lambda>cell0.
      bind_st (pure_op (expand_layers cell0 (lstm_layers self))) (\<lambda>input_cell.
      bind_st (call_layer layers (lstm_encoder self)
                 [embeddings_varying_encoder, input_hidden, input_cell, [batch]]) (\<lambda>ys.
      bind_st (pure_op (unpack3 ys)) (\<lambda>(encoder_output, hidden, cell).
      bind_st (call_layer layers (lstm_decoder self)
                 [embeddings_varying_decoder, hidden, cell, [batch_future]]) (\<lambda>ys.
      bind_st (pure_op (unpack3 ys)) (\<lambda>(decoder_output, hidden', cell').
      bind_st (call1 layers (post_lstm_gate_encoder self) [encoder_output]) (\<lambda>gated_encoder.
      bind_st (call1 layers (post_lstm_add_norm_encoder self)
                 [gated_encoder, embeddings_varying_encoder]) (\<lambda>lstm_output_encoder.
      bind_st (call1 layers (post_lstm_gate_decoder self) [decoder_output]) (\<lambda>gated_decoder.
      bind_st (call1 layers (post_lstm_add_norm_decoder self)
                 [gated_decoder, embeddings_varying_decoder]) (\<lambda>lstm_output_decoder.
      bind_st (pure_op (cat_dim 1 [lstm_output_encoder, lstm_output_decoder])) (\<lambda>lstm_output.
      bind_st (call1 layers (static_context_enrichment self) [static_embedding])
        (\<lambda>static_context_enrichment_v.
      bind_st (pure_op (expand_static_context static_context_enrichment_v timesteps))
        (\<lambda>enrichment_context.
      bind_st (call1 layers (static_enrichment self) [lstm_output, enrichment_context])
        (\<lambda>attn_input.
      bind_st (pure_op (slice_axis1 attn_input (Some max_encoder_length_v) None)) (\<lambda>query.
      bind_st (pure_op (mask_shape encoder_lengths (timesteps - max_encoder_length_v))) (\<lambda>mask.
      bind_st (call_layer layers (multihead_attn self) [query, attn_input, attn_input, mask])
        (\<lambda>ys.
      bind_st (pure_op (unpack2 ys)) (\<lambda>(attn_output, attn_output_weights).
      bind_st (pure_op (slice_axis1 attn_input (Some max_encoder_length_v) None)) (\<lambda>attn_skip.
      bind_st (call1 layers (post_attn_gate_norm self) [attn_output, attn_skip])
        (\<lambda>attn_output'.
      bind_st (call1 layers (pos_wise_ff self) [attn_output']) (\<lambda>output.
      bind_st (pure_op (slice_axis1 lstm_output (Some max_encoder_length_v) None)) (\<lambda>lstm_skip.
      bind_st (call1 layers (pre_output_gate_norm self) [output, lstm_skip]) (\<lambda>output'.
      if n_targets self > 1 then
        (case output_layer self of
           LayerList rs \<Rightarrow>
             bind_st (call_each layers rs output') (\<lambda>ys. pure_op (Inr (TensorList ys)))
         | Layer r \<Rightarrow> pure_op (Inl TypeError))
      else
        (case output_layer self of
           Layer r \<Rightarrow> bind_st (call1 layers r [output']) (\<lambda>y. pure_op (Inr (Tensor y)))
         | LayerList rs \<Rightarrow> pure_op (Inl (NotImplementedError [])))
      )))))))))))))))))))))))))))))))))))))))))))"

text \<open>A statement that leaves the state of the layers as it found it, whatever it returns.\<close>

definition state_preserving :: "('a, 's) stmt \<Rightarrow> bool" where
  "state_preserving m = (\<forall>s. snd (m s) = s)"

text \<open>
  Modelled from the spec: the layers are imported from \<^verbatim>\<open>tft_submodels_darts\<close>, which
  is not part of the sources. The shapes they return are those of section 4.1 of the
  specification: a gated residual network and a linear layer map the last axis of their
  input to their output width; a variable selection gate fuses its per-feature tensors
  into one embedding of width \<^verbatim>\<open>hidden_size\<close> and returns one weight per feature with it;
  an LSTM returns its output and the final hidden and cell state; the gated linear
  unit and the add-and-normalise layers keep the shape of their first argument; the
  attention returns one output per query and the attention weights of every head. This
  instance of the layers is used to run \<open>forward\<close> on concrete inputs.
\<close>

definition with_width :: "tshape \<Rightarrow> int \<Rightarrow> tshape" where
  "with_width x w = butlast x @ [nat w]"

definition layer_shapes :: "heap \<Rightarrow> ref \<Rightarrow> tshape list \<Rightarrow> error + tshape list" where
  "layer_shapes h r args =
     (if r < length h then
        (case (h ! r, args) of
           (Linear i out_width, [x]) \<Rightarrow>
             if x \<noteq> [] \<and> int (last x) = i then Inr [with_width x out_width] else Inl RuntimeError
         | (GatedResidualNetwork i hidden out_width context dropout_arg, x # rest) \<Rightarrow>
             if x \<noteq> [] \<and> int (last x) = i then Inr [with_width x out_width] else Inl RuntimeError
         | (VariableSelectionNetwork input_sizes hidden dropout_arg context pre grns, x # rest) \<Rightarrow>
             Inr [with_width x hidden, butlast x @ [1, length input_sizes]]
         | (LSTM i hidden n_layers dropout_arg, [x, h0, c0, lengths]) \<Rightarrow>
             Inr [with_width x hidden, h0, c0]
         | (GatedLinearUnit n dropout_arg, [x]) \<Rightarrow> Inr [with_width x n]
         | (AddNorm n, [x, skip]) \<Rightarrow> Inr [x]
         | (GateAddNorm n dropout_arg, [x, skip]) \<Rightarrow> Inr [x]
         | (InterpretableMultiHeadAttention d_model n_head dropout_arg,
            [query, keys, vals, attn_mask]) \<Rightarrow>
             if 2 \<le> length query \<and> 2 \<le> length keys
             then Inr [query, [query ! 0, query ! 1, nat n_head, keys ! 1]]
             else Inl RuntimeError
         | _ \<Rightarrow> Inl TypeError)
      else Inl RuntimeError)"

text \<open>
  Modelled from the spec: a call of a layer computes its result from its parameters and
  its arguments and writes nothing (section 7 of the specification: parameters are
  mutated only by an external training loop). The layer classes themselves are not part
  of the sources.
\<close>

definition pure_layers :: "heap \<Rightarrow> 's layers" where
  "pure_layers h r s args = (layer_shapes h r args, s)"

text \<open>Layers that count the calls made to them: every call changes the state.\<close>

definition counting_layers :: "heap \<Rightarrow> nat layers" where
  "counting_layers h r s args = (layer_shapes h r args, Suc s)"

text \<open>
  Any layers, with a log of the calls made to them: the layer called, the arguments it
  got and what it returned, in the order of the calls.
\<close>

type_synonym layer_call = "ref \<times> tshape list \<times> (error + tshape list)"

definition traced :: "'s layers \<Rightarrow> ('s \<times> layer_call list) layers" where
  "traced layers r st args =
     (case layers r (fst st) args of (res, s') \<Rightarrow> (res, (s', snd st @ [(r, args, res)])))"

text \<open>The state the logged calls, made again in their order, lead to.\<close>

definition replay :: "'s layers \<Rightarrow> layer_call list \<Rightarrow> 's \<Rightarrow> 's" where
  "replay layers calls s = fold (\<lambda>c s. snd (layers (fst c) s (fst (snd c)))) calls s"

text \<open>
  A statement over traced layers that only appends to the log, and whose only changes
  of the state are those of the calls it appends.
\<close>

definition logs_calls :: "'s layers \<Rightarrow> ('a, 's \<times> layer_call list) stmt \<Rightarrow> bool" where
  "logs_calls layers m =
     (\<forall>st. \<exists>calls. snd (snd (m st)) = snd st @ calls \<and>
                       fst (snd (m st)) = replay layers calls (fst st))"

section \<open>\<^verbatim>\<open>TFTModel\<close>: construction\<close>

text \<open>
  The loss function is told apart by \<^verbatim>\<open>isinstance(loss_fn, QuantileLoss)\<close> only; a
  quantile loss carries its quantile levels.
\<close>

datatype loss_fn = QuantileLoss "rat list" | OtherLoss

fun is_QuantileLoss :: "loss_fn \<Rightarrow> bool" where
  "is_QuantileLoss (QuantileLoss qs) = True"
| "is_QuantileLoss OtherLoss = False"

text \<open>
  Modelled from the spec: \<^verbatim>\<open>QuantileLoss\<close> is imported from
  \<^verbatim>\<open>tft_submodels_darts\<close>, which is not part of the sources. \<^verbatim>\<open>QuantileLoss()\<close>
  has seven quantile levels (the constructor's message says so) with the median in the
  middle; only the number of levels and the position of the median are used.
\<close>

definition default_quantiles :: "rat list" where
  "default_quantiles = [2 / 100, 1 / 10, 1 / 4, 1 / 2, 3 / 4, 9 / 10, 98 / 100]"

text \<open>\<^verbatim>\<open>list.index(x)\<close>: the first position of \<open>x\<close>, a \<^verbatim>\<open>ValueError\<close> when absent.\<close>

fun list_index :: "'a list \<Rightarrow> 'a \<Rightarrow> error + nat" where
  "list_index [] x = Inl (ValueError ''not in list'')"
| "list_index (y # ys) x =
     (if y = x then Inr 0 else bind_err (list_index ys x) (\<lambda>i. Inr (Suc i)))"

record tft_model =
  input_chunk_length :: int
  output_chunk_length :: int
  output_size :: output_size
  hidden_size :: int
  lstm_layers :: int
  dropout :: rat
  loss_fn :: loss_fn
  attention_head_size :: int
  max_encoder_length :: int
  hidden_continuous_size :: int
  hidden_continuous_sizes :: "(string \<times> int) list"
  share_single_variable_networks :: bool
  likelihood :: "(model_output \<Rightarrow> error + model_output) option"

text \<open>
  \<^verbatim>\<open>TFTModel.__init__\<close>. The base-class constructor, which runs first, is not part of
  the sources and is taken to return; \<^verbatim>\<open>raise_if(condition, message)\<close> raises a
  \<^verbatim>\<open>ValueError\<close> with the message (the empty message when none is given). The embedding
  tables of the signature are stored and never read; they are left out of the record.
  A likelihood is known by its \<^verbatim>\<open>sample\<close> method alone.
\<close>

definition TFTModel_init ::
  "int \<Rightarrow> int \<Rightarrow> output_size option \<Rightarrow> int \<Rightarrow> int \<Rightarrow> rat \<Rightarrow> loss_fn \<Rightarrow> int \<Rightarrow> int \<Rightarrow> int \<Rightarrow>
   (string \<times> int) list \<Rightarrow> bool \<Rightarrow> (model_output \<Rightarrow> error + model_output) option \<Rightarrow>
   error + tft_model" where
  "TFTModel_init input_chunk_length_arg output_chunk_length_arg output_size_arg hidden_size_arg
     lstm_layers_arg dropout_arg loss_fn_arg attention_head_size_arg max_encoder_length_arg
     hidden_continuous_size_arg hidden_continuous_sizes_arg share_single_variable_networks_arg
     likelihood_arg =
     bind_err
       (case output_size_arg of
          Some osz \<Rightarrow>
            if is_QuantileLoss loss_fn_arg \<and> osz \<noteq> Width (int (length default_quantiles))
            then Inl (ValueError
              ''For now when using QuantileLoss, the output_size must be equal to 7 (quantiles)'')
            else if \<not> is_QuantileLoss loss_fn_arg \<and> osz \<noteq> Width 1
            then Inl (ValueError [])
            else Inr osz
        | None \<Rightarrow>
            Inr (Width (if is_QuantileLoss loss_fn_arg then int (length default_quantiles) else 1)))
       (\<lambda>osz. Inr \<lparr>
          input_chunk_length = input_chunk_length_arg,
          output_chunk_length = output_chunk_length_arg,
          output_size = osz,
          hidden_size = hidden_size_arg,
          lstm_layers = lstm_layers_arg,
          dropout = dropout_arg,
          loss_fn = loss_fn_arg,
          attention_head_size = attention_head_size_arg,
          max_encoder_length = max_encoder_length_arg,
          hidden_continuous_size = hidden_continuous_size_arg,
          hidden_continuous_sizes = hidden_continuous_sizes_arg,
          share_single_variable_networks = share_single_variable_networks_arg,
          likelihood = likelihood_arg \<rparr>)"

section \<open>\<^verbatim>\<open>TFTModel\<close>: prediction and rollout\<close>

text \<open>
  The network \<^verbatim>\<open>self.model\<close> is called on the tuple (past target, past covariates,
  historic future covariates, future covariates). Its layers are not part of the
  sources, so the network is a parameter of everything below.
\<close>

type_synonym model_input = "shape \<times> shape option \<times> shape option \<times> shape option"

type_synonym network = "model_input \<Rightarrow> error + model_output"

text \<open>
  \<^verbatim>\<open>_produce_predict_output\<close>. Under a quantile loss the component at the position of the
  median is selected (an \<^verbatim>\<open>IndexError\<close> when the output is narrower) and
  \<^verbatim>\<open>unsqueeze\<close> restores a component axis of size one; a list cannot be indexed with
  a tuple. A configured likelihood samples from the output.
\<close>

definition produce_predict_output :: "network \<Rightarrow> tft_model \<Rightarrow> model_input \<Rightarrow> error + model_output" where
  "produce_predict_output net self x =
     bind_err
       (if is_QuantileLoss (loss_fn self) then
          bind_err (list_index default_quantiles (1 / 2)) (\<lambda>p50_index.
          bind_err (net x) (\<lambda>y.
            case y of
              Multi ys \<Rightarrow> Inl TypeError
            | Single (b, t, f) \<Rightarrow> if p50_index < f then Inr (Single (b, t, 1)) else Inl IndexError))
        else net x)
       (\<lambda>output. case likelihood self of None \<Rightarrow> Inr output | Some sample \<Rightarrow> sample output)"

text \<open>
  \<^verbatim>\<open>self._produce_predict_output(x=...)[:, self.first_prediction_index:, :]\<close>, the
  expression both calls of the rollout use. \<^verbatim>\<open>first_prediction_index\<close> is a property of
  the base class and is a parameter here.
\<close>

definition predict_from :: "network \<Rightarrow> int \<Rightarrow> tft_model \<Rightarrow> model_input \<Rightarrow> error + shape" where
  "predict_from net first_prediction_index self x =
     bind_err (produce_predict_output net self x) (\<lambda>y.
       case y of
         Multi ys \<Rightarrow> Inl TypeError
       | Single s \<Rightarrow> Inr (slice_time s (Some first_prediction_index) None))"

type_synonym input_batch =
  "shape \<times> shape option \<times> shape option \<times> shape option \<times> shape option"

text \<open>The variables the \<^verbatim>\<open>while\<close> loop of \<^verbatim>\<open>_get_batch_prediction\<close> updates.\<close>

record rollout_state =
  roll_size :: int
  prediction_length :: int
  batch_prediction :: "shape list"
  input_past :: shape
  out :: shape

definition n_components :: "shape option \<Rightarrow> int" where
  "n_components x = (case x of None \<Rightarrow> 0 | Some (b, t, f) \<Rightarrow> int f)"

text \<open>
  One pass through the body of the loop. \<^verbatim>\<open>torch.roll\<close> keeps the shape of
  \<^verbatim>\<open>input_past\<close>; \<^verbatim>\<open>batch_prediction\<close> is never empty, so its last entry exists.
  In an assignment the right-hand side is evaluated first.
\<close>

definition rollout_step ::
  "network \<Rightarrow> int \<Rightarrow> tft_model \<Rightarrow> int \<Rightarrow> input_batch \<Rightarrow> rollout_state \<Rightarrow> error + rollout_state" where
  "rollout_step net first_prediction_index self n batch st =
     (case batch of
        (past_target, past_covariates, historic_future_covariates, future_covariates,
         future_past_covariates) \<Rightarrow>
     let n_targets = n_components (Some past_target);
         n_past_covs = n_components past_covariates;
         n_future_covs = n_components future_covariates;
         icl = input_chunk_length self;
         ocl = output_chunk_length self;
         st1 = (if prediction_length st + ocl > n then
                  let spillover_prediction_length = prediction_length st + ocl - n;
                      rs = roll_size st - spillover_prediction_length
                  in st\<lparr> roll_size := rs,
                         prediction_length := prediction_length st - spillover_prediction_length,
                         batch_prediction :=
                           butlast (batch_prediction st) @
                           [slice_time (last (batch_prediction st)) None (Some rs)] \<rparr>
                else st);
         rs = roll_size st1;
         pl = prediction_length st1;
         rolled = input_past st1
     in
     bind_err
       (if icl \<ge> rs then
          setitem rolled
            (slice_comp (slice_time rolled (Some (- rs)) None) None (Some n_targets))
            (slice_time (out st1) None (Some rs))
        else
          setitem rolled
            (slice_comp rolled None (Some n_targets))
            (slice_time (out st1) (Some (- icl)) None)) (\<lambda>ip1.
     let (left_past, right_past) = (if icl \<ge> rs then (pl - rs, pl) else (pl - icl, pl)) in
     bind_err
       (if n_past_covs \<noteq> 0 \<and> icl \<ge> rs then
          bind_err (subscript future_past_covariates) (\<lambda>fpc.
            setitem ip1
              (slice_comp (slice_time ip1 (Some (- rs)) None)
                 (Some n_targets) (Some (n_targets + n_past_covs)))
              (slice_time fpc (Some left_past) (Some right_past)))
        else if n_past_covs \<noteq> 0 then
          bind_err (subscript future_past_covariates) (\<lambda>fpc.
            setitem ip1
              (slice_comp ip1 (Some n_targets) (Some (n_targets + n_past_covs)))
              (slice_time fpc (Some left_past) (Some right_past)))
        else Inr ip1) (\<lambda>ip2.
     bind_err
       (if n_future_covs \<noteq> 0 \<and> icl \<ge> rs then
          bind_err (subscript future_covariates) (\<lambda>fc.
            setitem ip2
              (slice_comp (slice_time ip2 (Some (- rs)) None)
                 (Some (n_targets + n_past_covs)) None)
              (slice_time fc (Some left_past) (Some right_past)))
        else if n_future_covs \<noteq> 0 then
          bind_err (subscript future_covariates) (\<lambda>fc.
            setitem ip2
              (slice_comp ip2 (Some (n_targets + n_past_covs)) None)
              (slice_time fc (Some left_past) (Some right_past)))
        else Inr ip2) (\<lambda>ip3.
     let left_future = right_past;
         right_future = right_past + ocl
     in
     bind_err (subscript future_covariates) (\<lambda>fc.
     let input_future = slice_time fc (Some left_future) (Some right_future);
         input_past_target = slice_comp ip3 None (Some n_targets);
         input_past_covs =
           (if n_past_covs \<noteq> 0
            then Some (slice_comp ip3 (Some n_targets) (Some (n_targets + n_past_covs)))
            else None);
         input_historic_future_covs =
           (if n_future_covs \<noteq> 0
            then Some (slice_comp ip3 (Some (n_targets + n_past_covs)) None)
            else None);
         input_future_covs = (if n_future_covs \<noteq> 0 then Some input_future else None)
     in
     bind_err
       (predict_from net first_prediction_index self
          (input_past_target, input_past_covs, input_historic_future_covs, input_future_covs))
       (\<lambda>out'.
          Inr (st1\<lparr> input_past := ip3,
                    out := out',
                    batch_prediction := batch_prediction st1 @ [out'],
                    prediction_length := pl + ocl \<rparr>)))))))"

text \<open>
  The \<^verbatim>\<open>while prediction_length < n\<close> loop. It need not stop (an
  \<^verbatim>\<open>output_chunk_length\<close> of zero never advances), so not returning is the value
  \<open>None\<close>; an exception leaves the loop.
\<close>

partial_function (option) rollout_loop ::
  "network \<Rightarrow> int \<Rightarrow> tft_model \<Rightarrow> int \<Rightarrow> input_batch \<Rightarrow> rollout_state \<Rightarrow>
   (error + rollout_state) option" where
  "rollout_loop net first_prediction_index self n batch st =
     (if prediction_length st < n then
        (case rollout_step net first_prediction_index self n batch st of
           Inl e \<Rightarrow> Some (Inl e)
         | Inr st' \<Rightarrow> rollout_loop net first_prediction_index self n batch st')
      else Some (Inr st))"

declare rollout_loop.simps [code]

text \<open>
  \<^verbatim>\<open>_get_batch_prediction(n, input_batch, roll_size)\<close>: the first prediction, the loop,
  and the concatenation of the chunks along time, cut to \<open>n\<close> steps.
\<close>

definition get_batch_prediction ::
  "network \<Rightarrow> int \<Rightarrow> tft_model \<Rightarrow> int \<Rightarrow> input_batch \<Rightarrow> int \<Rightarrow> (error + shape) option" where
  "get_batch_prediction net first_prediction_index self n batch roll_size_arg =
     (case batch of
        (past_target, past_covariates, historic_future_covariates, future_covariates,
         future_past_covariates) \<Rightarrow>
     (case cat_comp (past_target # List.map_filter id [past_covariates, historic_future_covariates]) of
        Inl e \<Rightarrow> Some (Inl e)
      | Inr input_past0 \<Rightarrow>
     let input_future =
           map_option (\<lambda>fc. slice_time fc None (Some roll_size_arg)) future_covariates
     in
     (case predict_from net first_prediction_index self
             (past_target, past_covariates, historic_future_covariates, input_future) of
        Inl e \<Rightarrow> Some (Inl e)
      | Inr out0 \<Rightarrow>
     (case rollout_loop net first_prediction_index self n batch
             \<lparr> roll_size = roll_size_arg,
               prediction_length = roll_size_arg,
               batch_prediction = [slice_time out0 None (Some roll_size_arg)],
               input_past = input_past0,
               out = out0 \<rparr> of
        None \<Rightarrow> None
      | Some (Inl e) \<Rightarrow> Some (Inl e)
      | Some (Inr st) \<Rightarrow>
          Some (bind_err (cat_time (batch_prediction st))
                  (\<lambda>bp. Inr (slice_time bp None (Some n))))))))"

text \<open>
  Modelled from the spec: the layers \<^verbatim>\<open>_TFTModule.forward\<close> calls are not part of the
  sources. For a single target its output has the batch size of the past target,
  \<^verbatim>\<open>output_chunk_length\<close> time steps and \<^verbatim>\<open>output_size\<close> components; the future
  covariates must be given, since \<^verbatim>\<open>forward\<close> concatenates them. This instance of the
  network is used to run the rollout on concrete inputs.
\<close>

definition forward_shape :: "nat \<Rightarrow> nat \<Rightarrow> network" where
  "forward_shape ocl width x =
     (case x of (past_target, past_covariates, historic_future_covariates, future_covariates) \<Rightarrow>
        (case future_covariates of
           None \<Rightarrow> Inl RuntimeError
         | Some fc \<Rightarrow> Inr (Single (fst past_target, ocl, width))))"

text \<open>
  The inputs the rollout is specified for: chunk lengths and horizon of at least one
  step, no likelihood, a past target of \<open>b\<close> samples, \<^verbatim>\<open>input_chunk_length\<close> steps and
  \<open>nt\<close> components, historic future covariates over the same steps and future
  covariates with the same \<open>nfc\<close> components over at least \<open>n\<close> and at least
  \<^verbatim>\<open>output_chunk_length\<close> steps, and either no past covariates or past covariates over
  the input steps with their future values over at least \<open>n\<close> steps. Every call of the
  rollout hands the network tensors of the shapes of the past target, the past
  covariates and the historic future covariates of the batch, and future covariates over
  \<^verbatim>\<open>output_chunk_length\<close> steps; on these the network returns
  \<^verbatim>\<open>output_chunk_length\<close> steps of width \<open>w\<close>. Under a quantile loss the width covers
  the position of the median. \<open>rollout_width\<close> is the width of what
  \<^verbatim>\<open>_produce_predict_output\<close> then returns, and it must fit the target columns.
\<close>

definition rollout_width :: "tft_model \<Rightarrow> nat \<Rightarrow> nat" where
  "rollout_width self w = (if is_QuantileLoss (loss_fn self) then 1 else w)"

definition valid_rollout ::
  "network \<Rightarrow> tft_model \<Rightarrow> int \<Rightarrow> input_batch \<Rightarrow> nat \<Rightarrow> nat \<Rightarrow> bool" where
  "valid_rollout net self n batch b w =
     (case batch of
        (past_target, past_covariates, historic_future_covariates, future_covariates,
         future_past_covariates) \<Rightarrow>
        1 \<le> input_chunk_length self \<and> 1 \<le> output_chunk_length self \<and> 1 \<le> n \<and>
        likelihood self = None \<and>
        (\<exists>nt nfc T.
           1 \<le> nt \<and> 1 \<le> nfc \<and> nat n \<le> T \<and> nat (output_chunk_length self) \<le> T \<and>
           past_target = (b, nat (input_chunk_length self), nt) \<and>
           historic_future_covariates = Some (b, nat (input_chunk_length self), nfc) \<and>
           future_covariates = Some (b, T, nfc) \<and>
           (past_covariates = None \<or>
            (\<exists>npc T'. 1 \<le> npc \<and> nat n \<le> T' \<and>
               past_covariates = Some (b, nat (input_chunk_length self), npc) \<and>
               future_past_covariates = Some (b, T', npc))) \<and>
           net (past_target, past_covariates, historic_future_covariates,
                Some (b, nat (output_chunk_length self), nfc)) =
             Inr (Single (b, nat (output_chunk_length self), w)) \<and>
           (is_QuantileLoss (loss_fn self) \<longrightarrow> 3 < w) \<and>
           (rollout_width self w = nt \<or> rollout_width self w = 1)))"

text \<open>
  Modelled from the spec: a network that instead refuses an input whose time
  dimensions disagree with the chunk lengths fixed at construction (the dimension
  mismatch the tensor runtime is expected to report).
\<close>

definition forward_shape_strict :: "nat \<Rightarrow> nat \<Rightarrow> nat \<Rightarrow> network" where
  "forward_shape_strict icl ocl width x =
     (case x of (past_target, past_covariates, historic_future_covariates, future_covariates) \<Rightarrow>
        (case future_covariates of
           None \<Rightarrow> Inl RuntimeError
         | Some fc \<Rightarrow>
             if fst (snd past_target) = icl \<and> fst (snd fc) = ocl
             then Inr (Single (fst past_target, ocl, width))
             else Inl RuntimeError))"

text \<open>
  \<^verbatim>\<open>self.model(x)\<close> with the module of \<^verbatim>\<open>_create_model\<close>: the forward pass on the four
  tensors. The rollout does not follow the state of the layers, so the network is the
  forward pass from one state \<open>s\<close>. The rollout indexes three axes of what it gets.
\<close>

definition shape_of :: "tshape \<Rightarrow> error + shape" where
  "shape_of t = (case t of [b, n, f] \<Rightarrow> Inr (b, n, f) | _ \<Rightarrow> Inl IndexError)"

definition dims_of :: "shape \<Rightarrow> tshape" where
  "dims_of x = (case x of (b, n, f) \<Rightarrow> [b, n, f])"

fun shapes_of :: "tshape list \<Rightarrow> error + shape list" where
  "shapes_of [] = Inr []"
| "shapes_of (t # ts) =
     bind_err (shape_of t) (\<lambda>x. bind_err (shapes_of ts) (\<lambda>xs. Inr (x # xs)))"

definition network_of :: "'s layers \<Rightarrow> 's \<Rightarrow> tft_module \<Rightarrow> network" where
  "network_of layers s m x =
     (case x of (past_target, past_covariates, historic_future_covariates, future_covariates) \<Rightarrow>
        bind_err
          (fst (forward layers m
                  (Some (dims_of past_target), map_option dims_of past_covariates,
                   map_option dims_of historic_future_covariates,
                   map_option dims_of future_covariates) s))
          (\<lambda>y. case y of
                 Tensor t \<Rightarrow> bind_err (shape_of t) (\<lambda>x. Inr (Single x))
               | TensorList ts \<Rightarrow> bind_err (shapes_of ts) (\<lambda>xs. Inr (Multi xs))))"

section \<open>\<^verbatim>\<open>TFTModel._create_model\<close>: the variable groups\<close>

text \<open>\<^verbatim>\<open>str(i)\<close> for a non-negative integer: its decimal digits.\<close>

fun str_nat :: "nat \<Rightarrow> string" where
  "str_nat n =
     (if n < 10 then [''0123456789'' ! n]
      else str_nat (n div 10) @ [''0123456789'' ! (n mod 10)])"

declare str_nat.simps [simp del]

text \<open>\<^verbatim>\<open>[f'{var_name}_{i}' for i in range(tensor.shape[1])]\<close>\<close>

definition feature_names :: "string \<Rightarrow> nat \<Rightarrow> string list" where
  "feature_names var_name width = map (\<lambda>i. var_name @ ''_'' @ str_nat i) [0..<width]"

text \<open>
  \<^verbatim>\<open>list(dict.fromkeys(xs))\<close>: the keys are inserted one after the other, and a key
  that is present keeps its place.
\<close>

definition fromkeys :: "'a list \<Rightarrow> 'a list" where
  "fromkeys xs = fold (\<lambda>x keys. if x \<in> set keys then keys else keys @ [x]) xs []"

text \<open>
  A tensor of the training sample has the shape \<open>(n_timesteps, n_variables)\<close>; the sample
  is (past target, past covariates, historic future covariates, future covariates,
  future target), and each of them may be \<^verbatim>\<open>None\<close>.
\<close>

type_synonym sample_tensor = "(nat \<times> nat) option"

type_synonym train_sample =
  "sample_tensor \<times> sample_tensor \<times> sample_tensor \<times> sample_tensor \<times> sample_tensor"

definition type_names :: "string list" where
  "type_names =
     [''past_target'', ''past_covariate'', ''historic_future_covariate'',
      ''future_covariate'', ''future_target'',
      ''static_covariate'']"

definition variable_names :: "string list" where
  "variable_names =
     [''target'', ''past_covariate'', ''future_covariate'',
      ''future_covariate'', ''target'',
      ''static_covariate'']"

text \<open>
  \<^verbatim>\<open>variables['input']\<close>: one list of names for every tensor that is not \<^verbatim>\<open>None\<close>;
  \<^verbatim>\<open>static_covariates\<close> is set to \<^verbatim>\<open>None\<close> by the method itself.
\<close>

definition variables_input :: "train_sample \<Rightarrow> (string \<times> string list) list" where
  "variables_input train_sample =
     (case train_sample of
        (past_target, past_covariate, historic_future_covariate, future_covariate,
         future_target) \<Rightarrow>
        (let static_covariates = None;
             tensors = [past_target, past_covariate, historic_future_covariate,
                        future_covariate, future_target,
                        static_covariates]
         in fold (\<lambda>(type_name, var_name, tensor) d.
                    case tensor of
                      None \<Rightarrow> d
                    | Some (n_timesteps, n_variables) \<Rightarrow>
                        dict_set d type_name (feature_names var_name n_variables))
              (zip type_names (zip variable_names tensors)) []))"

text \<open>
  One pass of the loop \<^verbatim>\<open>for input_var in type_names\<close> over the four lists
  (\<^verbatim>\<open>reals_input\<close>, \<^verbatim>\<open>time_varying_encoder_input\<close>,
  \<^verbatim>\<open>time_varying_decoder_input\<close>, \<^verbatim>\<open>static_input\<close>).
\<close>

definition group_step ::
  "(string \<times> string list) list \<Rightarrow> string \<Rightarrow>
   string list \<times> string list \<times> string list \<times> string list \<Rightarrow>
   string list \<times> string list \<times> string list \<times> string list" where
  "group_step inputs input_var acc =
     (case acc of (reals_acc, encoder_acc, decoder_acc, static_acc) \<Rightarrow>
        (case map_of inputs input_var of
           None \<Rightarrow> acc
         | Some vars \<Rightarrow>
             if input_var \<in> set [''past_target'', ''past_covariate'', ''historic_future_covariate'']
             then (reals_acc @ vars, encoder_acc @ vars, decoder_acc, static_acc)
             else if input_var \<in> set [''future_covariate'']
             then (reals_acc @ vars, encoder_acc, decoder_acc @ vars, static_acc)
             else if input_var \<in> set [''static_covariate'']
             then (reals_acc @ vars, encoder_acc, decoder_acc, static_acc @ vars)
             else (reals_acc @ vars, encoder_acc, decoder_acc, static_acc)))"

definition create_model_variables :: "train_sample \<Rightarrow> variables" where
  "create_model_variables train_sample =
     (let inputs = variables_input train_sample;
          (reals_acc, encoder_acc, decoder_acc, static_acc) =
            fold (group_step inputs) type_names ([], [], [], [])
      in \<lparr> input = inputs,
            model_config =
              \<lparr> reals_input = fromkeys reals_acc,
                time_varying_encoder_input = fromkeys encoder_acc,
                time_varying_decoder_input = fromkeys decoder_acc,
                static_input = fromkeys static_acc \<rparr> \<rparr>)"

text \<open>
  \<^verbatim>\<open>_create_model(train_sample)\<close>: the dimensions, the variable groups and the
  construction of the module. \<^verbatim>\<open>future_target.shape\<close> fails on \<^verbatim>\<open>None\<close>.
\<close>

definition create_model :: "tft_model \<Rightarrow> train_sample \<Rightarrow> heap \<Rightarrow> error + tft_module \<times> heap" where
  "create_model self train_sample h =
     (case train_sample of
        (past_target, past_covariate, historic_future_covariate, future_covariate,
         future_target) \<Rightarrow>
        (let input_dim_v =
               sum_list (map (\<lambda>(n_timesteps, n_variables). int n_variables)
                 (List.map_filter id [past_target, past_covariate, historic_future_covariate]))
         in (case future_target of
               None \<Rightarrow> Inl AttributeError
             | Some (n_timesteps, output_dim_v) \<Rightarrow>
                 TFTModule_init (create_model_variables train_sample) input_dim_v
                   (int output_dim_v) (input_chunk_length self) (output_chunk_length self)
                   (output_size self) (hidden_size self) (lstm_layers self) (dropout self)
                   (attention_head_size self) (max_encoder_length self)
                   (hidden_continuous_size self) (hidden_continuous_sizes self)
                   (share_single_variable_networks self) h)))"

text \<open>
  The names a tensor of the sample contributes under a variable name: none when the
  tensor is \<^verbatim>\<open>None\<close>, one for each of its columns otherwise.
\<close>

definition names_of :: "string \<Rightarrow> sample_tensor \<Rightarrow> string list" where
  "names_of var_name tensor =
     (case tensor of None \<Rightarrow> [] | Some (n_timesteps, n_variables) \<Rightarrow> feature_names var_name n_variables)"

definition n_variables_of :: "sample_tensor \<Rightarrow> nat" where
  "n_variables_of tensor = (case tensor of None \<Rightarrow> 0 | Some (n_timesteps, n_variables) \<Rightarrow> n_variables)"

section \<open>Dictionaries, key lists and the heap\<close>

lemma fold_alloc_extends:
  "fold (\<lambda>w (rs, h). (rs @ [length h], h @ [mk w])) ws (rs0, h0) = (rs1, h1)
   \<Longrightarrow> \<exists>ext. h1 = h0 @ ext"
proof (induction ws arbitrary: rs0 h0)
  case Nil
  then show ?case by simp
next
  case (Cons w ws)
  from Cons.prems obtain ext where "h1 = (h0 @ [mk w]) @ ext"
    using Cons.IH [of "rs0 @ [length h0]" "h0 @ [mk w]"] by auto
  then show ?case by simp
qed

lemma build_output_layer_extends:
  assumes "build_output_layer n hid osz h = Inr (ol, h')"
  shows "\<exists>ext. h' = h @ ext"
  using assms
  by (auto simp: build_output_layer_def alloc_def
           split: if_splits output_size.splits prod.splits dest: fold_alloc_extends)


lemma map_of_replace:
  "map_of (map (\<lambda>(k', v'). if k' = k then (k', v) else (k', v')) d) x =
     (if x = k \<and> k \<in> fst ` set d then Some v else map_of d x)"
proof (induction d)
  case Nil
  show ?case by simp
next
  case (Cons a d)
  obtain k' v' where a: "a = (k', v')" by (cases a)
  show ?case
  proof (cases "k' = k")
    case True
    with Cons a show ?thesis by simp
  next
    case False
    with Cons a show ?thesis by (cases "x = k'") simp_all
  qed
qed

lemma map_of_dict_set: "map_of (dict_set d k v) = (map_of d)(k \<mapsto> v)"
proof (rule ext)
  fix x
  show "map_of (dict_set d k v) x = ((map_of d)(k \<mapsto> v)) x"
  proof (cases "k \<in> fst ` set d")
    case False
    then have n: "map_of d k = None"
      by (simp add: map_of_eq_None_iff)
    have "map_of (d @ [(k, v)]) x = ((map_of d)(k \<mapsto> v)) x"
      using n by (cases "map_of d x") (auto simp: map_add_def)
    with False show ?thesis
      by (simp add: dict_set_def)
  next
    case True
    then show ?thesis
      by (simp add: dict_set_def map_of_replace)
  qed
qed

lemma fromkeys_snoc:
  "fromkeys (xs @ [x]) = (if x \<in> set (fromkeys xs) then fromkeys xs else fromkeys xs @ [x])"
  by (simp add: fromkeys_def)

lemma set_fromkeys: "set (fromkeys xs) = set xs"
  by (induction xs rule: rev_induct) (auto simp: fromkeys_snoc, simp add: fromkeys_def)

lemma fromkeys_remdups: "fromkeys xs = rev (remdups (rev xs))"
  by (induction xs rule: rev_induct) (auto simp: fromkeys_snoc set_fromkeys, simp add: fromkeys_def)

lemma distinct_fromkeys: "distinct (fromkeys xs)"
  by (simp add: fromkeys_remdups)

lemma keys_dict_set:
  "map fst (dict_set d k v) = (if k \<in> fst ` set d then map fst d else map fst d @ [k])"
proof -
  have "map fst (map (\<lambda>(k', v'). if k' = k then (k', v) else (k', v')) d) = map fst d"
    by (induction d) auto
  then show ?thesis by (simp add: dict_set_def)
qed

lemma dict_set_same:
  "k \<in> set ks \<Longrightarrow> dict_set (map (\<lambda>n. (n, f n)) ks) k (f k) = map (\<lambda>n. (n, f n)) ks"
  by (auto simp: dict_set_def comp_def image_image intro!: map_idI)

lemma dict_comprehension_fromkeys:
  "dict_comprehension f names = map (\<lambda>n. (n, f n)) (fromkeys names)"
proof (induction names rule: rev_induct)
  case Nil
  show ?case by (simp add: dict_comprehension_def fromkeys_def)
next
  case (snoc x xs)
  have "dict_comprehension f (xs @ [x]) = dict_set (dict_comprehension f xs) x (f x)"
    by (simp add: dict_comprehension_def)
  also have "\<dots> = dict_set (map (\<lambda>n. (n, f n)) (fromkeys xs)) x (f x)"
    by (simp add: snoc)
  also have "\<dots> = map (\<lambda>n. (n, f n)) (fromkeys (xs @ [x]))"
  proof (cases "x \<in> set (fromkeys xs)")
    case True
    then show ?thesis by (simp add: dict_set_same fromkeys_snoc)
  next
    case False
    then show ?thesis by (simp add: dict_set_def fromkeys_snoc image_iff comp_def)
  qed
  finally show ?case .
qed


lemma insert_keys_fromkeys:
  "distinct ks0 \<Longrightarrow>
   fold (\<lambda>k ks. if k \<in> set ks then ks else ks @ [k]) ks ks0 =
     ks0 @ filter (\<lambda>k. k \<notin> set ks0) (fromkeys ks)"
proof (induction ks rule: rev_induct)
  case Nil
  show ?case by (simp add: fromkeys_def)
next
  case (snoc k ks)
  then show ?case
    by (auto simp: fromkeys_snoc set_fromkeys)
qed

lemma fromkeys_distinct: "distinct xs \<Longrightarrow> fromkeys xs = xs"
  by (simp add: fromkeys_remdups distinct_remdups_id)

section \<open>Properties of the attention mask\<close>

lemma tensor_max_Max: "xs \<noteq> [] \<Longrightarrow> tensor_max xs = Inr (Max (set xs))"
proof (cases xs)
  case Nil
  assume "xs \<noteq> []"
  with Nil show ?thesis by simp
next
  case (Cons a list)
  show ?thesis
    using Max.set_eq_fold [of a list] by (simp add: Cons tensor_max_def)
qed

lemma arange_nat: "arange (int n) = Inr (map int [0..<n])"
  by (simp add: arange_def)

lemma get_attention_mask_value:
  assumes "encoder_lengths \<noteq> []" and "Max (set encoder_lengths) = int enc"
  shows "get_attention_mask encoder_lengths (int dl) =
           Inr (map (\<lambda>l. map (\<lambda>q. map (\<lambda>j. int j \<ge> l) [0..<enc] @ map (\<lambda>a. a \<ge> q) [0..<dl])
                            [0..<dl])
                  encoder_lengths)"
  using assms
  by (simp add: get_attention_mask_def create_mask_def tensor_max_Max arange_nat Let_def comp_def)

text \<open>
  C1, as the code has it. For a batch that is not empty, whose longest encoder length is
  \<open>enc\<close>, and a decoder length \<open>dl\<close>, the mask is built, it has the shape
  \<open>(batch, dl, enc + dl)\<close>, and its entry for sample \<open>i\<close>, query step \<open>q\<close> and key \<open>k\<close>
  is true exactly when \<open>k\<close> is an encoder position at or beyond the encoder length of
  sample \<open>i\<close>, or \<open>k\<close> is a decoder position whose step is the query step or a later one.
\<close>

theorem get_attention_mask_entries:
  assumes "encoder_lengths \<noteq> []" and "Max (set encoder_lengths) = int enc"
  shows "\<exists>m. get_attention_mask encoder_lengths (int dl) = Inr m \<and>
           length m = length encoder_lengths \<and>
           (\<forall>i < length encoder_lengths.
              length (m ! i) = dl \<and>
              (\<forall>q < dl.
                 length (m ! i ! q) = enc + dl \<and>
                 (\<forall>k < enc + dl.
                    m ! i ! q ! k =
                      (if k < enc then encoder_lengths ! i \<le> int k else q \<le> k - enc))))"
  unfolding get_attention_mask_value [OF assms]
  by (auto simp: nth_append)

theorem get_attention_mask_entries_witness:
  "\<exists>m. get_attention_mask [5, 3] (int 4) = Inr m \<and>
           length m = length [5, 3 :: int] \<and>
           (\<forall>i < length [5, 3 :: int].
              length (m ! i) = 4 \<and>
              (\<forall>q < 4.
                 length (m ! i ! q) = 5 + 4 \<and>
                 (\<forall>k < 5 + 4.
                    m ! i ! q ! k =
                      (if k < 5 then [5, 3 :: int] ! i \<le> int k else q \<le> k - 5))))"
  using get_attention_mask_entries [of "[5, 3]" 5 4] by simp

text \<open>
  C1, as the specification words it, fails on the diagonal of the decoder part: for one
  sample of encoder length 1 and a decoder length of 1, the key at position 1 is the
  decoder step 0, the query step is 0, and the mask is true there although step 0 does
  not strictly exceed step 0.
\<close>

theorem get_attention_mask_self_counterexample:
  "get_attention_mask [1] 1 = Inr [[[False, True]]] \<and> \<not> claimed_mask_entry [1] 1 0 0 1"
  by (simp add: get_attention_mask_def create_mask_def tensor_max_def arange_def
        claimed_mask_entry_def)

section \<open>The calls the forward pass makes\<close>

lemma replay_Nil: "replay layers [] s = s"
  by (simp add: replay_def)

lemma replay_append: "replay layers (xs @ ys) s = replay layers ys (replay layers xs s)"
  by (simp add: replay_def)

lemma logs_calls_pure_op: "logs_calls layers (pure_op r)"
  by (simp add: logs_calls_def pure_op_def replay_Nil)

lemma logs_calls_bind_st:
  assumes m: "logs_calls layers m" and f: "\<And>a. logs_calls layers (f a)"
  shows "logs_calls layers (bind_st m f)"
  unfolding logs_calls_def
proof
  fix st
  obtain r st1 where ms: "m st = (r, st1)"
    by (cases "m st")
  from m have "\<exists>calls. snd (snd (m st)) = snd st @ calls \<and>
                       fst (snd (m st)) = replay layers calls (fst st)"
    unfolding logs_calls_def by (rule spec)
  with ms obtain c1 where c1: "snd st1 = snd st @ c1" "fst st1 = replay layers c1 (fst st)"
    by auto
  show "\<exists>calls. snd (snd (bind_st m f st)) = snd st @ calls \<and>
                 fst (snd (bind_st m f st)) = replay layers calls (fst st)"
  proof (cases r)
    case (Inl e)
    with ms c1 show ?thesis
      by (auto simp: bind_st_def)
  next
    case (Inr a)
    from f [of a] have "\<exists>calls. snd (snd (f a st1)) = snd st1 @ calls \<and>
                         fst (snd (f a st1)) = replay layers calls (fst st1)"
      unfolding logs_calls_def by (rule spec)
    then obtain c2 where c2: "snd (snd (f a st1)) = snd st1 @ c2"
        "fst (snd (f a st1)) = replay layers c2 (fst st1)"
      by auto
    have "snd (snd (bind_st m f st)) = snd st @ (c1 @ c2)"
      using ms Inr c1 c2 by (simp add: bind_st_def)
    moreover have "fst (snd (bind_st m f st)) = replay layers (c1 @ c2) (fst st)"
      using ms Inr c1 c2 by (simp add: bind_st_def replay_append)
    ultimately show ?thesis
      by blast
  qed
qed

lemma logs_calls_call_layer: "logs_calls layers (call_layer (traced layers) r args)"
  unfolding logs_calls_def
proof
  fix st :: "'a \<times> layer_call list"
  let ?c = "(r, args, fst (layers r (fst st) args))"
  have "snd (snd (call_layer (traced layers) r args st)) = snd st @ [?c]"
    by (simp add: call_layer_def traced_def split_beta)
  moreover have "fst (snd (call_layer (traced layers) r args st)) = replay layers [?c] (fst st)"
    by (simp add: call_layer_def traced_def split_beta replay_def)
  ultimately show "\<exists>calls. snd (snd (call_layer (traced layers) r args st)) = snd st @ calls \<and>
      fst (snd (call_layer (traced layers) r args st)) = replay layers calls (fst st)"
    by blast
qed

lemma logs_calls_call1: "logs_calls layers (call1 (traced layers) r args)"
  unfolding call1_def
  by (intro logs_calls_bind_st logs_calls_call_layer logs_calls_pure_op)

lemma logs_calls_call_each: "logs_calls layers (call_each (traced layers) rs x)"
proof (induction rs)
  case Nil
  show ?case by (simp add: logs_calls_pure_op)
next
  case (Cons r rs)
  show ?case
    by (simp, intro logs_calls_bind_st logs_calls_call1 Cons logs_calls_pure_op)
qed

lemma logs_calls_case_prod:
  assumes "\<And>a b. logs_calls layers (f a b)"
  shows "logs_calls layers (case p of (a, b) \<Rightarrow> f a b)"
  using assms by (cases p) simp

lemma logs_calls_forward: "logs_calls layers (forward (traced layers) self x)"
  unfolding forward_def Let_def
  by (cases x)
     (auto intro!: logs_calls_bind_st logs_calls_pure_op logs_calls_call_layer
             logs_calls_call1 logs_calls_call_each logs_calls_case_prod
           split: output_layer.splits)

text \<open>What a statement that returned has done.\<close>

lemma bind_st_InrE:
  assumes "bind_st m f s = (Inr y, s')"
  obtains a s1 where "m s = (Inr a, s1)" and "f a s1 = (Inr y, s')"
  using assms by (auto simp: bind_st_def split: prod.splits sum.splits)

lemma pure_op_Inr: "pure_op r s = (Inr a, s') \<longleftrightarrow> r = Inr a \<and> s' = s"
  by (auto simp: pure_op_def)

lemma unpack1_Inr: "unpack1 ys = Inr a \<longleftrightarrow> ys = [a]"
  by (auto simp: unpack1_def split: list.splits)

lemma unpack2_Inr: "unpack2 ys = Inr p \<longleftrightarrow> ys = [fst p, snd p]"
  by (auto simp: unpack2_def split: list.splits)

lemma unpack3_Inr: "unpack3 ys = Inr p \<longleftrightarrow> ys = [fst p, fst (snd p), snd (snd p)]"
  by (auto simp: unpack3_def split: list.splits)

lemma call_layer_traced_Inr:
  "call_layer (traced layers) r args st = (Inr ys, st') \<longleftrightarrow>
     fst (layers r (fst st) args) = Inr ys \<and>
     st' = (snd (layers r (fst st) args), snd st @ [(r, args, Inr ys)])"
  by (auto simp: call_layer_def traced_def split: prod.splits)

lemma call1_traced_Inr:
  "call1 (traced layers) r args st = (Inr y, st') \<longleftrightarrow>
     fst (layers r (fst st) args) = Inr [y] \<and>
     st' = (snd (layers r (fst st) args), snd st @ [(r, args, Inr [y])])"
  by (auto simp: call1_def bind_st_def call_layer_def traced_def pure_op_def unpack1_def
           split: prod.splits sum.splits list.splits)

lemma call_each_traced_log:
  assumes "call_each (traced layers) rs x st = (r, st')"
  shows "\<exists>calls. snd st' = snd st @ calls"
proof -
  have "\<exists>calls. snd (snd (call_each (traced layers) rs x st)) = snd st @ calls \<and>
          fst (snd (call_each (traced layers) rs x st)) = replay layers calls (fst st)"
    using logs_calls_call_each [of layers rs x] unfolding logs_calls_def by (rule spec)
  with assms show ?thesis
    by auto
qed


section \<open>Errors at construction and for categorical variables\<close>

lemma length_default_quantiles: "length default_quantiles = 7"
  by (simp add: default_quantiles_def)

text \<open>
  C7, as the code has it. With an output width given, the constructor of
  \<^verbatim>\<open>TFTModel\<close> raises a \<^verbatim>\<open>ValueError\<close> when the loss is a quantile loss, with whatever
  quantile levels, and the width is not 7, the number of quantile levels of a newly
  built \<^verbatim>\<open>QuantileLoss()\<close>; and when the loss is not a quantile loss and the width is
  not 1. No network exists yet at that point: the constructor returns no model.
\<close>

theorem TFTModel_init_width_mismatch:
  assumes "(l = QuantileLoss qs \<and> osz \<noteq> Width 7) \<or> (l = OtherLoss \<and> osz \<noteq> Width 1)"
  shows "\<exists>msg. TFTModel_init icl ocl (Some osz) hid layers dr l heads mel hcs hcss share lk =
                  Inl (ValueError msg)"
  using assms by (auto simp: TFTModel_init_def bind_err_def length_default_quantiles)

theorem TFTModel_init_width_mismatch_witness:
  "(\<exists>msg. TFTModel_init 12 1 (Some (Width 3)) 16 1 (1 / 10) (QuantileLoss default_quantiles)
             4 10 8 [] False None = Inl (ValueError msg)) \<and>
   (\<exists>msg. TFTModel_init 12 1 (Some (Width 7)) 16 1 (1 / 10) OtherLoss
             4 10 8 [] False None = Inl (ValueError msg))"
  using TFTModel_init_width_mismatch [of "QuantileLoss default_quantiles" default_quantiles
          "Width 3" 12 1 16 1 "1 / 10" 4 10 8 "[]" False None]
        TFTModel_init_width_mismatch [of OtherLoss "[]" "Width 7" 12 1 16 1 "1 / 10" 4 10 8 "[]"
          False None]
  by simp

text \<open>
  C7, as the specification words it, fails: the width is not compared with the number of
  quantile levels of the loss that is passed. A quantile loss of three levels with an
  output width of 7 is accepted, although 7 is not its number of quantiles, and with
  an output width of 3, its number of quantiles, it is refused.
\<close>

theorem TFTModel_init_three_quantiles_counterexample:
  "TFTModel_init 12 1 (Some (Width 7)) 16 1 (1 / 10) (QuantileLoss [1 / 4, 1 / 2, 3 / 4])
     4 10 8 [] False None =
     Inr \<lparr> input_chunk_length = 12, output_chunk_length = 1, output_size = Width 7,
           hidden_size = 16, lstm_layers = 1, dropout = 1 / 10,
           loss_fn = QuantileLoss [1 / 4, 1 / 2, 3 / 4], attention_head_size = 4,
           max_encoder_length = 10, hidden_continuous_size = 8, hidden_continuous_sizes = [],
           share_single_variable_networks = False, likelihood = None \<rparr> \<and>
   length [1 / 4, 1 / 2, 3 / 4 :: rat] \<noteq> 7 \<and>
   TFTModel_init 12 1 (Some (Width 3)) 16 1 (1 / 10) (QuantileLoss [1 / 4, 1 / 2, 3 / 4])
     4 10 8 [] False None =
     Inl (ValueError
       ''For now when using QuantileLoss, the output_size must be equal to 7 (quantiles)'')"
  by (simp add: TFTModel_init_def bind_err_def length_default_quantiles)

text \<open>
  C8. For every module, reading the property \<^verbatim>\<open>categoricals\<close> raises
  \<^verbatim>\<open>NotImplementedError\<close> with the message that categorical variables are not yet
  supported; the property has no other outcome.
\<close>

theorem categoricals_not_supported:
  "categoricals self = Inl (NotImplementedError ''TFT does not yet support categorical variables'')"
  by (simp add: categoricals_def)

section \<open>The shared gate after the LSTM\<close>

text \<open>
  The constructor assigns the encoder-side gate and add-and-normalise layer to the
  decoder-side attributes: the four attributes hold two addresses, those of the one
  \<^verbatim>\<open>GatedLinearUnit\<close> and the one \<^verbatim>\<open>AddNorm\<close> it allocated.
\<close>

lemma post_lstm_skip_aliases:
  assumes "TFTModule_init v idim odim icl ocl osz hid n_layers dr heads mel hcs hcss share h0 =
             Inr (m, h)"
  shows "post_lstm_gate_decoder m = post_lstm_gate_encoder m \<and>
         post_lstm_add_norm_decoder m = post_lstm_add_norm_encoder m \<and>
         post_lstm_gate_encoder m < length h \<and>
         h ! post_lstm_gate_encoder m = GatedLinearUnit hid (Some dr) \<and>
         post_lstm_add_norm_encoder m < length h \<and>
         h ! post_lstm_add_norm_encoder m = AddNorm hid"
  using assms
  by (auto simp: TFTModule_init_def Let_def alloc_def nth_append
           split: prod.splits sum.splits if_splits dest!: build_output_layer_extends)

text \<open>
  Every forward pass that returns has made, as its sixth to eleventh calls of a layer:
  the encoder LSTM, the decoder LSTM, the encoder-side gate on the output of the encoder
  LSTM, the encoder-side add-and-normalise on the gated output and the encoder
  embeddings, and then the decoder-side gate and add-and-normalise on the output of the
  decoder LSTM and the decoder embeddings.
\<close>

lemma forward_trace:
  assumes run: "forward (traced layers) m x (s, []) = (Inr y, (s', calls))"
  shows "\<exists>enc_args dec_args eo eh ec dout dh dc ge le gd ld.
           take 6 (drop 5 calls) =
             [(lstm_encoder m, enc_args, Inr [eo, eh, ec]),
              (lstm_decoder m, dec_args, Inr [dout, dh, dc]),
              (post_lstm_gate_encoder m, [eo], Inr [ge]),
              (post_lstm_add_norm_encoder m, [ge, hd enc_args], Inr [le]),
              (post_lstm_gate_decoder m, [dout], Inr [gd]),
              (post_lstm_add_norm_decoder m, [gd, hd dec_args], Inr [ld])]"
  using run unfolding forward_def Let_def
  apply (cases x)
  apply (simp only: prod.case)
  apply (elim bind_st_InrE)
  apply (simp only: pure_op_Inr call1_traced_Inr call_layer_traced_Inr unpack2_Inr unpack3_Inr
           fst_conv snd_conv case_prod_beta append_Nil)
  apply clarify
  apply (elim bind_st_InrE)
  apply (simp only: pure_op_Inr call1_traced_Inr call_layer_traced_Inr unpack2_Inr unpack3_Inr
           fst_conv snd_conv case_prod_beta append_Nil)
  apply clarify
  apply (elim bind_st_InrE)
  apply (simp only: pure_op_Inr call1_traced_Inr call_layer_traced_Inr unpack2_Inr unpack3_Inr
           fst_conv snd_conv case_prod_beta append_Nil)
  apply clarify
  apply (elim bind_st_InrE)
  apply (simp only: pure_op_Inr call1_traced_Inr call_layer_traced_Inr unpack2_Inr unpack3_Inr
           fst_conv snd_conv case_prod_beta append_Nil)
  apply clarify
  apply (elim bind_st_InrE)
  apply (simp only: pure_op_Inr call1_traced_Inr call_layer_traced_Inr unpack2_Inr unpack3_Inr
           fst_conv snd_conv case_prod_beta append_Nil)
  apply clarify
  apply (elim bind_st_InrE)
  apply (simp only: pure_op_Inr call1_traced_Inr call_layer_traced_Inr unpack2_Inr unpack3_Inr
           fst_conv snd_conv case_prod_beta append_Nil)
  apply clarify
  apply (simp only: append_assoc append_Cons append_Nil split: if_splits output_layer.splits)
     apply (auto simp: pure_op_Inr call1_traced_Inr elim!: bind_st_InrE
              dest!: call_each_traced_log)
  done

text \<open>
  C6. Take any module the constructor returns and any forward pass of it that returns,
  whatever the layers compute. The layer applied to the output of the decoder LSTM is
  the layer, at the same address \<open>g\<close>, applied to the output of the encoder LSTM, and
  the object at \<open>g\<close> is the one \<^verbatim>\<open>GatedLinearUnit\<close> of width \<^verbatim>\<open>hidden_size\<close>; what it
  returns is added to the embeddings and normalised by the layer at one address \<open>n\<close> on
  both sides, the one \<^verbatim>\<open>AddNorm\<close>. The log holds, for each call, the address called, the
  arguments and the result of \<open>layers\<close> at that address, so both sides are computed by
  the one function \<open>layers g\<close>, and by \<open>layers n\<close>.
\<close>

theorem post_lstm_skip_weight_tied:
  assumes init: "TFTModule_init v idim odim icl ocl osz hid n_layers dr heads mel hcs hcss
                   share h0 = Inr (m, h)"
      and run: "forward (traced layers) m x (s, []) = (Inr y, (s', calls))"
  shows "\<exists>g n enc_args dec_args eo eh ec dout dh dc ge le gd ld.
           g < length h \<and> h ! g = GatedLinearUnit hid (Some dr) \<and>
           n < length h \<and> h ! n = AddNorm hid \<and>
           take 6 (drop 5 calls) =
             [(lstm_encoder m, enc_args, Inr [eo, eh, ec]),
              (lstm_decoder m, dec_args, Inr [dout, dh, dc]),
              (g, [eo], Inr [ge]),
              (n, [ge, hd enc_args], Inr [le]),
              (g, [dout], Inr [gd]),
              (n, [gd, hd dec_args], Inr [ld])]"
proof -
  from forward_trace [OF run] obtain enc_args dec_args eo eh ec dout dh dc ge le gd ld
    where tr: "take 6 (drop 5 calls) =
             [(lstm_encoder m, enc_args, Inr [eo, eh, ec]),
              (lstm_decoder m, dec_args, Inr [dout, dh, dc]),
              (post_lstm_gate_encoder m, [eo], Inr [ge]),
              (post_lstm_add_norm_encoder m, [ge, hd enc_args], Inr [le]),
              (post_lstm_gate_decoder m, [dout], Inr [gd]),
              (post_lstm_add_norm_decoder m, [gd, hd dec_args], Inr [ld])]"
    by blast
  from post_lstm_skip_aliases [OF init]
  have al: "post_lstm_gate_decoder m = post_lstm_gate_encoder m"
           "post_lstm_add_norm_decoder m = post_lstm_add_norm_encoder m"
           "post_lstm_gate_encoder m < length h"
           "h ! post_lstm_gate_encoder m = GatedLinearUnit hid (Some dr)"
           "post_lstm_add_norm_encoder m < length h"
           "h ! post_lstm_add_norm_encoder m = AddNorm hid"
    by simp_all
  from tr al(1,2) have "take 6 (drop 5 calls) =
             [(lstm_encoder m, enc_args, Inr [eo, eh, ec]),
              (lstm_decoder m, dec_args, Inr [dout, dh, dc]),
              (post_lstm_gate_encoder m, [eo], Inr [ge]),
              (post_lstm_add_norm_encoder m, [ge, hd enc_args], Inr [le]),
              (post_lstm_gate_encoder m, [dout], Inr [gd]),
              (post_lstm_add_norm_encoder m, [gd, hd dec_args], Inr [ld])]"
    by simp
  with al(3-6) show ?thesis
    by blast
qed

theorem post_lstm_skip_weight_tied_witness:
  "(case TFTModule_init
           \<lparr> input = [],
             model_config = \<lparr> reals_input = [''target_0'', ''future_covariate_0''],
               time_varying_encoder_input = [''target_0'', ''future_covariate_0''],
               time_varying_decoder_input = [''future_covariate_0''], static_input = [] \<rparr> \<rparr>
           2 1 5 2 (Width 7) 16 1 (1 / 10) 4 10 8 [] False [] of
      Inl e \<Rightarrow> False
    | Inr (m, h) \<Rightarrow>
        (case forward (traced (pure_layers h)) m
                (Some [3, 5, 1], None, Some [3, 5, 1], Some [3, 2, 1]) ((), []) of
           (Inl e, st) \<Rightarrow> False
         | (Inr y, st) \<Rightarrow>
             y = Tensor [3, 2, 7] \<and>
             (\<exists>g n. h ! g = GatedLinearUnit 16 (Some (1 / 10)) \<and> h ! n = AddNorm 16 \<and>
                map fst (take 6 (drop 5 (snd st))) =
                  [lstm_encoder m, lstm_decoder m, g, n, g, n])))"
proof -
  let ?init = "TFTModule_init
           \<lparr> input = [],
             model_config = \<lparr> reals_input = [''target_0'', ''future_covariate_0''],
               time_varying_encoder_input = [''target_0'', ''future_covariate_0''],
               time_varying_decoder_input = [''future_covariate_0''], static_input = [] \<rparr> \<rparr>
           2 1 5 2 (Width 7) 16 1 (1 / 10) 4 10 8 [] False []"
  let ?x = "(Some [3, 5, 1], None, Some [3, 5, 1], Some [3, 2, 1])"
  have ev: "(case ?init of Inl e \<Rightarrow> False
             | Inr (m, h) \<Rightarrow>
                 fst (forward (traced (pure_layers h)) m ?x ((), [])) = Inr (Tensor [3, 2, 7]))"
    by code_simp
  then obtain m h where init: "?init = Inr (m, h)"
      and val: "fst (forward (traced (pure_layers h)) m ?x ((), [])) = Inr (Tensor [3, 2, 7])"
    by (auto split: sum.splits)
  obtain s' calls where run: "forward (traced (pure_layers h)) m ?x ((), []) =
      (Inr (Tensor [3, 2, 7]), (s', calls))"
    using val by (cases "forward (traced (pure_layers h)) m ?x ((), [])") auto
  from post_lstm_skip_weight_tied [OF init run]
  obtain g n where gn: "h ! g = GatedLinearUnit 16 (Some (1 / 10))" "h ! n = AddNorm 16"
      "map fst (take 6 (drop 5 calls)) = [lstm_encoder m, lstm_decoder m, g, n, g, n]"
    by auto
  have "\<exists>g n. h ! g = GatedLinearUnit 16 (Some (1 / 10)) \<and> h ! n = AddNorm 16 \<and>
                map fst (take 6 (drop 5 calls)) = [lstm_encoder m, lstm_decoder m, g, n, g, n]"
    by (rule exI [of _ g], rule exI [of _ n]) (simp only: gn simp_thms)
  with init run show ?thesis
    by simp
qed

section \<open>Properties of the variable groups\<close>

lemma lookup_step:
  "map_of (case t of None \<Rightarrow> d | Some (a, w) \<Rightarrow> dict_set d tn (F w)) k =
     (if k = tn then (case t of None \<Rightarrow> map_of d k | Some (a, w) \<Rightarrow> Some (F w))
      else map_of d k)"
  by (cases t) (auto simp: map_of_dict_set)


lemma map_of_variables_input:
  "map_of (variables_input (pt, pc, hfc, fc, ft)) ''past_target'' =
     map_option (\<lambda>(t, w). feature_names ''target'' w) pt"
  "map_of (variables_input (pt, pc, hfc, fc, ft)) ''past_covariate'' =
     map_option (\<lambda>(t, w). feature_names ''past_covariate'' w) pc"
  "map_of (variables_input (pt, pc, hfc, fc, ft)) ''historic_future_covariate'' =
     map_option (\<lambda>(t, w). feature_names ''future_covariate'' w) hfc"
  "map_of (variables_input (pt, pc, hfc, fc, ft)) ''future_covariate'' =
     map_option (\<lambda>(t, w). feature_names ''future_covariate'' w) fc"
  "map_of (variables_input (pt, pc, hfc, fc, ft)) ''future_target'' =
     map_option (\<lambda>(t, w). feature_names ''target'' w) ft"
  "map_of (variables_input (pt, pc, hfc, fc, ft)) ''static_covariate'' = None"
  unfolding variables_input_def type_names_def variable_names_def Let_def
  by (simp_all add: lookup_step split: option.splits)

lemma group_step_each:
  "group_step (variables_input (pt, pc, hfc, fc, ft)) ''past_target'' (r, e, d, s) =
     (r @ names_of ''target'' pt, e @ names_of ''target'' pt, d, s)"
  "group_step (variables_input (pt, pc, hfc, fc, ft)) ''past_covariate'' (r, e, d, s) =
     (r @ names_of ''past_covariate'' pc, e @ names_of ''past_covariate'' pc, d, s)"
  "group_step (variables_input (pt, pc, hfc, fc, ft)) ''historic_future_covariate'' (r, e, d, s) =
     (r @ names_of ''future_covariate'' hfc, e @ names_of ''future_covariate'' hfc, d, s)"
  "group_step (variables_input (pt, pc, hfc, fc, ft)) ''future_covariate'' (r, e, d, s) =
     (r @ names_of ''future_covariate'' fc, e, d @ names_of ''future_covariate'' fc, s)"
  "group_step (variables_input (pt, pc, hfc, fc, ft)) ''future_target'' (r, e, d, s) =
     (r @ names_of ''target'' ft, e, d, s)"
  "group_step (variables_input (pt, pc, hfc, fc, ft)) ''static_covariate'' (r, e, d, s) =
     (r, e, d, s)"
  by (simp_all add: group_step_def map_of_variables_input names_of_def split: option.splits)

lemma feature_names_mono: "w \<le> w' \<Longrightarrow> set (feature_names v w) \<subseteq> set (feature_names v w')"
  by (auto simp: feature_names_def)

lemma names_of_mono:
  "n_variables_of t \<le> n_variables_of t' \<Longrightarrow> set (names_of v t) \<subseteq> set (names_of v t')"
  using feature_names_mono [of "n_variables_of t" "n_variables_of t'" v]
  by (auto simp: names_of_def n_variables_of_def feature_names_def split: option.splits)

lemma group_lists:
  "fold (group_step (variables_input (pt, pc, hfc, fc, ft))) type_names ([], [], [], []) =
     ((names_of ''target'' pt @ names_of ''past_covariate'' pc @ names_of ''future_covariate'' hfc)
        @ names_of ''future_covariate'' fc @ names_of ''target'' ft,
      names_of ''target'' pt @ names_of ''past_covariate'' pc @ names_of ''future_covariate'' hfc,
      names_of ''future_covariate'' fc,
      [])"
  by (simp add: type_names_def group_step_each)

text \<open>
  C4, as the code has it. The encoder group is the names of the past target, the past
  covariates and the historic future covariates, the decoder group the names of the
  future covariates, each in order of first appearance with later repetitions dropped;
  the static group is empty. No group lists a name twice, every name of a group is a
  name of \<^verbatim>\<open>reals_input\<close>, and when the future target has no more columns than the
  past target, every name of \<^verbatim>\<open>reals_input\<close> is in a group. A name may be in two
  groups: the historic future covariates and the future covariates are named alike.
\<close>

theorem create_model_variable_groups:
  fixes pt pc hfc fc ft :: sample_tensor
  defines "cfg \<equiv> model_config (create_model_variables (pt, pc, hfc, fc, ft))"
  defines "encoder_raw \<equiv> names_of ''target'' pt @ names_of ''past_covariate'' pc @
                            names_of ''future_covariate'' hfc"
  defines "decoder_raw \<equiv> names_of ''future_covariate'' fc"
  shows "time_varying_encoder_input cfg = rev (remdups (rev encoder_raw)) \<and>
         time_varying_decoder_input cfg = rev (remdups (rev decoder_raw)) \<and>
         static_input cfg = [] \<and>
         reals_input cfg = rev (remdups (rev (encoder_raw @ decoder_raw @ names_of ''target'' ft))) \<and>
         distinct (time_varying_encoder_input cfg) \<and>
         distinct (time_varying_decoder_input cfg) \<and>
         set (time_varying_encoder_input cfg) \<union> set (time_varying_decoder_input cfg)
           \<subseteq> set (reals_input cfg) \<and>
         (n_variables_of ft \<le> n_variables_of pt \<longrightarrow>
            set (reals_input cfg) =
              set (time_varying_encoder_input cfg) \<union> set (time_varying_decoder_input cfg) \<union>
              set (static_input cfg))"
proof -
  have groups:
    "time_varying_encoder_input cfg = fromkeys encoder_raw"
    "time_varying_decoder_input cfg = fromkeys decoder_raw"
    "static_input cfg = fromkeys []"
    "reals_input cfg = fromkeys (encoder_raw @ decoder_raw @ names_of ''target'' ft)"
    by (simp_all add: cfg_def encoder_raw_def decoder_raw_def create_model_variables_def
          group_lists Let_def)
  have target: "n_variables_of ft \<le> n_variables_of pt \<Longrightarrow>
                set (names_of ''target'' ft) \<subseteq> set encoder_raw"
    using names_of_mono [of ft pt "''target''"] by (auto simp: encoder_raw_def)
  show ?thesis
    using target by (auto simp: groups fromkeys_remdups)
qed

theorem create_model_variable_groups_witness:
  "n_variables_of (Some (2, 1)) \<le> n_variables_of (Some (5, 1)) \<and>
   set (reals_input (model_config (create_model_variables
          (Some (5, 1), Some (5, 2), Some (5, 1), Some (2, 1), Some (2, 1))))) =
   set (time_varying_encoder_input (model_config (create_model_variables
          (Some (5, 1), Some (5, 2), Some (5, 1), Some (2, 1), Some (2, 1))))) \<union>
   set (time_varying_decoder_input (model_config (create_model_variables
          (Some (5, 1), Some (5, 2), Some (5, 1), Some (2, 1), Some (2, 1))))) \<union>
   set (static_input (model_config (create_model_variables
          (Some (5, 1), Some (5, 2), Some (5, 1), Some (2, 1), Some (2, 1)))))"
proof -
  have h: "n_variables_of (Some (2, 1)) \<le> n_variables_of (Some (5, 1))"
    by (simp add: n_variables_of_def)
  from create_model_variable_groups
         [where pt = "Some (5, 1)" and pc = "Some (5, 2)" and hfc = "Some (5, 1)"
            and fc = "Some (2, 1)" and ft = "Some (2, 1)"] h
  show ?thesis by blast
qed

text \<open>
  C4, as the specification words it, fails: with one historic future covariate and one
  future covariate, the name \<^verbatim>\<open>future_covariate_0\<close> is in the encoder group and in the
  decoder group.
\<close>

theorem create_model_shared_name_counterexample:
  "time_varying_encoder_input (model_config (create_model_variables
     (Some (5, 1), None, Some (5, 1), Some (2, 1), Some (2, 1)))) =
     [''target_0'', ''future_covariate_0''] \<and>
   time_varying_decoder_input (model_config (create_model_variables
     (Some (5, 1), None, Some (5, 1), Some (2, 1), Some (2, 1)))) =
     [''future_covariate_0'']"
  by (simp add: create_model_variables_def group_lists names_of_def feature_names_def
        fromkeys_def str_nat.simps)

section \<open>Properties of the rollout\<close>

lemma slice_len_stop: "0 \<le> k \<Longrightarrow> slice_len t None (Some k) = min (nat k) t"
  by (auto simp: slice_len_def slice_bound_def)

lemma slice_len_neg_start: "k < 0 \<Longrightarrow> slice_len t (Some k) None = min (nat (- k)) t"
  by (auto simp: slice_len_def slice_bound_def)

lemma nat_int_add: "nat (int a + int b) = a + b"
  by simp

lemma slice_len_range:
  "0 \<le> l \<Longrightarrow> l \<le> r \<Longrightarrow> r \<le> int t \<Longrightarrow> slice_len t (Some l) (Some r) = nat (r - l)"
  by (auto simp: slice_len_def slice_bound_def)

lemma slice_len_from: "0 \<le> l \<Longrightarrow> slice_len t (Some l) None = t - nat l"
  by (auto simp: slice_len_def slice_bound_def)

lemma cat_time_snoc:
  "cat_time xs = Inr (b, t, w) \<Longrightarrow> cat_time (xs @ [(b, t', w)]) = Inr (b, t + t', w)"
proof (induction xs arbitrary: t rule: cat_time.induct)
  case 1
  then show ?case by simp
next
  case (2 x)
  then show ?case by (simp add: bind_err_def)
next
  case (3 b0 t0 f0 v va)
  then show ?case
    by (auto simp: bind_err_def split: sum.splits if_splits)
qed

lemma cat_time_replace_last:
  "cat_time (xs @ [(b, t1, w)]) = Inr (b, t, w) \<Longrightarrow>
   cat_time (xs @ [(b, t2, w)]) = Inr (b, t - t1 + t2, w) \<and> t1 \<le> t"
proof (induction xs arbitrary: t)
  case Nil
  then show ?case by simp
next
  case (Cons a xs)
  obtain b0 t0 f0 where a: "a = (b0, t0, f0)" by (cases a)
  obtain y ys where ys: "xs @ [(b, t1, w)] = y # ys" by (cases "xs @ [(b, t1, w)]") auto
  obtain z zs where zs: "xs @ [(b, t2, w)] = z # zs" by (cases "xs @ [(b, t2, w)]") auto
  from Cons.prems a ys obtain t' where
    t': "cat_time (xs @ [(b, t1, w)]) = Inr (b, t', w)" "t = t0 + t'" "b0 = b" "f0 = w"
    by (auto simp: bind_err_def split: sum.splits if_splits)
  from Cons.IH [OF t'(1)] have "cat_time (xs @ [(b, t2, w)]) = Inr (b, t' - t1 + t2, w)" "t1 \<le> t'"
    by auto
  with a zs t' show ?case
    by (auto simp: bind_err_def)
qed


lemma list_index_median: "list_index default_quantiles (1 / 2) = Inr 3"
  by (simp add: default_quantiles_def bind_err_def)

lemma predict_from_chunk:
  assumes "net (p, q, r, Some (b, nat (output_chunk_length self), nfc)) =
             Inr (Single (b, nat (output_chunk_length self), w))"
      and "likelihood self = None"
      and "is_QuantileLoss (loss_fn self) \<longrightarrow> 3 < w"
  shows "predict_from net 0 self (p, q, r, Some (b, nat (output_chunk_length self), nfc)) =
           Inr (b, nat (output_chunk_length self), rollout_width self w)"
  using assms
  by (simp add: predict_from_def produce_predict_output_def bind_err_def list_index_median
        rollout_width_def slice_time_def slice_len_from)

lemma rollout_step_full:
  assumes icl: "1 \<le> input_chunk_length self" and ocl: "1 \<le> output_chunk_length self"
      and lk: "likelihood self = None"
      and nt: "1 \<le> nt" and nfc: "1 \<le> nfc"
      and T: "nat n \<le> T"
      and pc: "pc = None \<or> (\<exists>npc T'. 1 \<le> npc \<and> nat n \<le> T' \<and>
                 pc = Some (b, nat (input_chunk_length self), npc) \<and> fpc = Some (b, T', npc))"
      and net: "net ((b, nat (input_chunk_length self), nt), pc,
                    Some (b, nat (input_chunk_length self), nfc),
                    Some (b, nat (output_chunk_length self), nfc)) =
                  Inr (Single (b, nat (output_chunk_length self), w))"
      and q: "is_QuantileLoss (loss_fn self) \<longrightarrow> 3 < w"
      and fit: "rollout_width self w = nt \<or> rollout_width self w = 1"
      and F: "F = nt + nat (n_components pc) + nfc"
      and pl: "output_chunk_length self \<le> pl" "pl + output_chunk_length self \<le> n"
  shows "rollout_step net 0 self n
           ((b, nat (input_chunk_length self), nt), pc,
            Some (b, nat (input_chunk_length self), nfc), Some (b, T, nfc), fpc)
           \<lparr> roll_size = output_chunk_length self, prediction_length = pl,
             batch_prediction = bp, input_past = (b, nat (input_chunk_length self), F),
             out = (b, nat (output_chunk_length self), rollout_width self w) \<rparr> =
         Inr \<lparr> roll_size = output_chunk_length self,
               prediction_length = pl + output_chunk_length self,
               batch_prediction = bp @ [(b, nat (output_chunk_length self), rollout_width self w)],
               input_past = (b, nat (input_chunk_length self), F),
               out = (b, nat (output_chunk_length self), rollout_width self w) \<rparr>"
proof -
  have fut: "slice_time (b, T, nfc) (Some pl) (Some (pl + output_chunk_length self)) =
               (b, nat (output_chunk_length self), nfc)"
    using ocl pl T by (simp add: slice_time_def slice_len_range)
  have pf: "predict_from net 0 self ((b, nat (input_chunk_length self), nt), pc,
                        Some (b, nat (input_chunk_length self), nfc),
                        Some (b, nat (output_chunk_length self), nfc)) =
           Inr (b, nat (output_chunk_length self), rollout_width self w)"
    using predict_from_chunk
            [where net = net and p = "(b, nat (input_chunk_length self), nt)" and q = pc
               and r = "Some (b, nat (input_chunk_length self), nfc)" and b = b and self = self
               and nfc = nfc and w = w]
          net lk q
    by simp
  from pc show ?thesis
  proof
    assume "pc = None"
    then show ?thesis
      using icl ocl nt nfc T fit F pl pf
      by (simp add: rollout_step_def Let_def n_components_def bind_err_def setitem_def
            broadcastable_def slice_time_def slice_comp_def subscript_def slice_len_stop
            slice_len_neg_start slice_len_range slice_len_from nat_int_add)
  next
    assume "\<exists>npc T'. 1 \<le> npc \<and> nat n \<le> T' \<and>
                 pc = Some (b, nat (input_chunk_length self), npc) \<and> fpc = Some (b, T', npc)"
    then obtain npc T' where "1 \<le> npc" "nat n \<le> T'"
        "pc = Some (b, nat (input_chunk_length self), npc)" "fpc = Some (b, T', npc)"
      by blast
    then show ?thesis
      using icl ocl nt nfc T fit F pl pf
      by (simp add: rollout_step_def Let_def n_components_def bind_err_def setitem_def
            broadcastable_def slice_time_def slice_comp_def subscript_def slice_len_stop
            slice_len_neg_start slice_len_range slice_len_from nat_int_add)
  qed
qed


lemma rollout_step_last:
  assumes icl: "1 \<le> input_chunk_length self" and ocl: "1 \<le> output_chunk_length self"
      and lk: "likelihood self = None"
      and nt: "1 \<le> nt" and nfc: "1 \<le> nfc"
      and T: "nat n \<le> T"
      and pc: "pc = None \<or> (\<exists>npc T'. 1 \<le> npc \<and> nat n \<le> T' \<and>
                 pc = Some (b, nat (input_chunk_length self), npc) \<and> fpc = Some (b, T', npc))"
      and net: "net ((b, nat (input_chunk_length self), nt), pc,
                    Some (b, nat (input_chunk_length self), nfc),
                    Some (b, nat (output_chunk_length self), nfc)) =
                  Inr (Single (b, nat (output_chunk_length self), w))"
      and q: "is_QuantileLoss (loss_fn self) \<longrightarrow> 3 < w"
      and fit: "rollout_width self w = nt \<or> rollout_width self w = 1"
      and F: "F = nt + nat (n_components pc) + nfc"
      and pl: "output_chunk_length self \<le> pl" "pl < n" "n < pl + output_chunk_length self"
      and bp: "last bp = (b, nat (output_chunk_length self), rollout_width self w)"
  shows "rollout_step net 0 self n
           ((b, nat (input_chunk_length self), nt), pc,
            Some (b, nat (input_chunk_length self), nfc), Some (b, T, nfc), fpc)
           \<lparr> roll_size = output_chunk_length self, prediction_length = pl,
             batch_prediction = bp, input_past = (b, nat (input_chunk_length self), F),
             out = (b, nat (output_chunk_length self), rollout_width self w) \<rparr> =
         Inr \<lparr> roll_size = n - pl,
               prediction_length = n,
               batch_prediction =
                 (butlast bp @ [(b, nat (n - pl), rollout_width self w)]) @
                 [(b, nat (output_chunk_length self), rollout_width self w)],
               input_past = (b, nat (input_chunk_length self), F),
               out = (b, nat (output_chunk_length self), rollout_width self w) \<rparr>"
proof -
  have pf: "predict_from net 0 self ((b, nat (input_chunk_length self), nt), pc,
                        Some (b, nat (input_chunk_length self), nfc),
                        Some (b, nat (output_chunk_length self), nfc)) =
           Inr (b, nat (output_chunk_length self), rollout_width self w)"
    using predict_from_chunk
            [where net = net and p = "(b, nat (input_chunk_length self), nt)" and q = pc
               and r = "Some (b, nat (input_chunk_length self), nfc)" and b = b and self = self
               and nfc = nfc and w = w]
          net lk q
    by simp
  from pc show ?thesis
  proof
    assume "pc = None"
    then show ?thesis
      using icl ocl nt nfc T fit F pl bp pf
      by (simp add: rollout_step_def Let_def n_components_def bind_err_def setitem_def
            broadcastable_def slice_time_def slice_comp_def subscript_def slice_len_stop
            slice_len_neg_start slice_len_range slice_len_from nat_int_add)
  next
    assume "\<exists>npc T'. 1 \<le> npc \<and> nat n \<le> T' \<and>
                 pc = Some (b, nat (input_chunk_length self), npc) \<and> fpc = Some (b, T', npc)"
    then obtain npc T' where "1 \<le> npc" "nat n \<le> T'"
        "pc = Some (b, nat (input_chunk_length self), npc)" "fpc = Some (b, T', npc)"
      by blast
    then show ?thesis
      using icl ocl nt nfc T fit F pl bp pf
      by (simp add: rollout_step_def Let_def n_components_def bind_err_def setitem_def
            broadcastable_def slice_time_def slice_comp_def subscript_def slice_len_stop
            slice_len_neg_start slice_len_range slice_len_from nat_int_add)
  qed
qed


lemma rollout_loop_full:
  assumes icl: "1 \<le> input_chunk_length self" and ocl: "1 \<le> output_chunk_length self"
      and lk: "likelihood self = None"
      and nt: "1 \<le> nt" and nfc: "1 \<le> nfc"
      and T: "nat n \<le> T"
      and pc: "pc = None \<or> (\<exists>npc T'. 1 \<le> npc \<and> nat n \<le> T' \<and>
                 pc = Some (b, nat (input_chunk_length self), npc) \<and> fpc = Some (b, T', npc))"
      and net: "net ((b, nat (input_chunk_length self), nt), pc,
                    Some (b, nat (input_chunk_length self), nfc),
                    Some (b, nat (output_chunk_length self), nfc)) =
                  Inr (Single (b, nat (output_chunk_length self), w))"
      and q: "is_QuantileLoss (loss_fn self) \<longrightarrow> 3 < w"
      and fit: "rollout_width self w = nt \<or> rollout_width self w = 1"
      and F: "F = nt + nat (n_components pc) + nfc"
      and pl: "output_chunk_length self \<le> pl"
      and bp: "bp \<noteq> []" "last bp = (b, nat (output_chunk_length self), rollout_width self w)"
              "cat_time bp = Inr (b, nat pl, rollout_width self w)"
  shows "\<exists>st'. rollout_loop net 0 self n
           ((b, nat (input_chunk_length self), nt), pc,
            Some (b, nat (input_chunk_length self), nfc), Some (b, T, nfc), fpc)
           \<lparr> roll_size = output_chunk_length self, prediction_length = pl,
             batch_prediction = bp, input_past = (b, nat (input_chunk_length self), F),
             out = (b, nat (output_chunk_length self), rollout_width self w) \<rparr> = Some (Inr st') \<and>
           cat_time (batch_prediction st') = Inr (b, nat (max pl n), rollout_width self w)"
  using pl bp
proof (induction "nat (n - pl)" arbitrary: pl bp rule: less_induct)
  case less
  let ?batch = "((b, nat (input_chunk_length self), nt), pc,
            Some (b, nat (input_chunk_length self), nfc), Some (b, T, nfc), fpc)"
  let ?chunk = "(b, nat (output_chunk_length self), rollout_width self w)"
  let ?st = "\<lparr> roll_size = output_chunk_length self, prediction_length = pl,
             batch_prediction = bp, input_past = (b, nat (input_chunk_length self), F),
             out = ?chunk \<rparr>"
  consider (stop) "n \<le> pl" | (full) "pl < n" "pl + output_chunk_length self \<le> n"
    | (cut) "pl < n" "n < pl + output_chunk_length self"
    by linarith
  then show ?case
  proof cases
    case stop
    then have "rollout_loop net 0 self n ?batch ?st = Some (Inr ?st)"
      by (subst rollout_loop.simps) simp
    moreover from stop have "max pl n = pl" by simp
    ultimately show ?thesis using less.prems by simp
  next
    case full
    let ?st1 = "\<lparr> roll_size = output_chunk_length self,
                  prediction_length = pl + output_chunk_length self,
                  batch_prediction = bp @ [?chunk],
                  input_past = (b, nat (input_chunk_length self), F), out = ?chunk \<rparr>"
    have step: "rollout_step net 0 self n ?batch ?st = Inr ?st1"
      using rollout_step_full [where net = net, OF icl ocl lk nt nfc T pc net q fit F less.prems(1) full(2)] .
    have unfold: "rollout_loop net 0 self n ?batch ?st = rollout_loop net 0 self n ?batch ?st1"
      using full(1) step by (subst rollout_loop.simps) simp
    have cat: "cat_time (bp @ [?chunk]) =
                 Inr (b, nat (pl + output_chunk_length self), rollout_width self w)"
      using cat_time_snoc [OF less.prems(4), of "nat (output_chunk_length self)"] ocl less.prems(1)
      by (simp add: nat_add_distrib)
    have "\<exists>st'. rollout_loop net 0 self n ?batch ?st1 = Some (Inr st') \<and>
            cat_time (batch_prediction st') =
              Inr (b, nat (max (pl + output_chunk_length self) n), rollout_width self w)"
      using less.hyps [of "pl + output_chunk_length self" "bp @ [?chunk]"] full ocl less.prems(1) cat
      by simp
    moreover from full ocl have "max (pl + output_chunk_length self) n = max pl n" by simp
    ultimately show ?thesis using unfold by simp
  next
    case cut
    let ?st1 = "\<lparr> roll_size = n - pl, prediction_length = n,
                  batch_prediction = (butlast bp @ [(b, nat (n - pl), rollout_width self w)]) @ [?chunk],
                  input_past = (b, nat (input_chunk_length self), F), out = ?chunk \<rparr>"
    have step: "rollout_step net 0 self n ?batch ?st = Inr ?st1"
      using rollout_step_last [where net = net, OF icl ocl lk nt nfc T pc net q fit F less.prems(1) cut less.prems(3)] .
    have stop: "rollout_loop net 0 self n ?batch ?st1 = Some (Inr ?st1)"
      by (subst rollout_loop.simps) simp
    have unfold: "rollout_loop net 0 self n ?batch ?st = Some (Inr ?st1)"
      using cut(1) step stop by (subst rollout_loop.simps) simp
    from less.prems(2,3) have "bp = butlast bp @ [?chunk]"
      using append_butlast_last_id [of bp] by simp
    with less.prems(4) have "cat_time (butlast bp @ [?chunk]) = Inr (b, nat pl, rollout_width self w)"
      by simp
    from cat_time_replace_last [OF this, of "nat (n - pl)"]
    have "cat_time (butlast bp @ [(b, nat (n - pl), rollout_width self w)]) =
            Inr (b, nat pl - nat (output_chunk_length self) + nat (n - pl), rollout_width self w)"
         "nat (output_chunk_length self) \<le> nat pl"
      by auto
    from cat_time_snoc [OF this(1), of "nat (output_chunk_length self)"] this(2) cut ocl less.prems(1)
    have "cat_time ((butlast bp @ [(b, nat (n - pl), rollout_width self w)]) @ [?chunk]) =
            Inr (b, nat n, rollout_width self w)"
      by (simp add: nat_diff_distrib nat_add_distrib) 
    moreover from cut have "max pl n = n" by simp
    ultimately show ?thesis using unfold by simp
  qed
qed

lemma get_batch_prediction_shape:
  assumes "valid_rollout net self n batch b w"
  shows "get_batch_prediction net 0 self n batch (output_chunk_length self) =
           Some (Inr (b, nat n, rollout_width self w))"
proof -
  obtain past_target pc hfc fc fpc where batch: "batch = (past_target, pc, hfc, fc, fpc)"
    by (cases batch)
  from assms batch obtain nt nfc T where
    icl: "1 \<le> input_chunk_length self" and ocl: "1 \<le> output_chunk_length self" and n: "1 \<le> n"
    and lk: "likelihood self = None"
    and nt: "1 \<le> nt" and nfc: "1 \<le> nfc" and T: "nat n \<le> T" "nat (output_chunk_length self) \<le> T"
    and pt: "past_target = (b, nat (input_chunk_length self), nt)"
    and hfc: "hfc = Some (b, nat (input_chunk_length self), nfc)"
    and fc: "fc = Some (b, T, nfc)"
    and pc: "pc = None \<or> (\<exists>npc T'. 1 \<le> npc \<and> nat n \<le> T' \<and>
                 pc = Some (b, nat (input_chunk_length self), npc) \<and> fpc = Some (b, T', npc))"
    and net: "net ((b, nat (input_chunk_length self), nt), pc,
                    Some (b, nat (input_chunk_length self), nfc),
                    Some (b, nat (output_chunk_length self), nfc)) =
                  Inr (Single (b, nat (output_chunk_length self), w))"
    and q: "is_QuantileLoss (loss_fn self) \<longrightarrow> 3 < w"
    and fit: "rollout_width self w = nt \<or> rollout_width self w = 1"
    unfolding valid_rollout_def by auto
  let ?chunk = "(b, nat (output_chunk_length self), rollout_width self w)"
  let ?F = "nt + nat (n_components pc) + nfc"
  have cat: "cat_comp (past_target # List.map_filter id [pc, hfc]) =
               Inr (b, nat (input_chunk_length self), ?F)"
    using pc by (auto simp: pt hfc List.map_filter_def bind_err_def n_components_def)
  have fut: "map_option (\<lambda>fc. slice_time fc None (Some (output_chunk_length self))) fc =
               Some (b, nat (output_chunk_length self), nfc)"
    using ocl T by (simp add: fc slice_time_def slice_len_stop)
  have first: "predict_from net 0 self
                 (past_target, pc, hfc, Some (b, nat (output_chunk_length self), nfc)) = Inr ?chunk"
    using predict_from_chunk
            [where net = net and p = "(b, nat (input_chunk_length self), nt)" and q = pc
               and r = "Some (b, nat (input_chunk_length self), nfc)" and b = b and self = self
               and nfc = nfc and w = w]
          net lk q
    by (simp add: pt hfc)
  have trunc: "slice_time ?chunk None (Some (output_chunk_length self)) = ?chunk"
    using ocl by (simp add: slice_time_def slice_len_stop)
  have "\<exists>st'. rollout_loop net 0 self n
             ((b, nat (input_chunk_length self), nt), pc,
              Some (b, nat (input_chunk_length self), nfc), Some (b, T, nfc), fpc)
             \<lparr> roll_size = output_chunk_length self, prediction_length = output_chunk_length self,
               batch_prediction = [?chunk], input_past = (b, nat (input_chunk_length self), ?F),
               out = ?chunk \<rparr> = Some (Inr st') \<and>
           cat_time (batch_prediction st') =
             Inr (b, nat (max (output_chunk_length self) n), rollout_width self w)"
    by (rule rollout_loop_full [where net = net, OF icl ocl lk nt nfc T(1) pc net q fit refl order_refl]) simp_all
  then obtain st' where
    loop: "rollout_loop net 0 self n
             ((b, nat (input_chunk_length self), nt), pc,
              Some (b, nat (input_chunk_length self), nfc), Some (b, T, nfc), fpc)
             \<lparr> roll_size = output_chunk_length self, prediction_length = output_chunk_length self,
               batch_prediction = [?chunk], input_past = (b, nat (input_chunk_length self), ?F),
               out = ?chunk \<rparr> = Some (Inr st')"
    and total: "cat_time (batch_prediction st') =
                  Inr (b, nat (max (output_chunk_length self) n), rollout_width self w)"
    by blast
  have final: "slice_time (b, nat (max (output_chunk_length self) n), rollout_width self w)
                 None (Some n) = (b, nat n, rollout_width self w)"
    using n by (simp add: slice_time_def slice_len_stop)
  show ?thesis
    unfolding get_batch_prediction_def batch
    using cat fut first trunc loop total final
    by (simp add: pt hfc fc bind_err_def)
qed


text \<open>
  C3, as the code has it. For a model the constructor returned, a network of the
  configured output width (the forward pass of the module built for the model is one),
  a rollout input as described by \<open>valid_rollout\<close>, a roll
  size equal to \<^verbatim>\<open>output_chunk_length\<close> and \<^verbatim>\<open>first_prediction_index\<close> zero, the
  rollout returns, and what it returns is one tensor of shape \<open>(batch, n, 1)\<close>: under a
  quantile loss only the column of the median is kept of every prediction, and any other
  loss has an output width of one.
\<close>

theorem get_batch_prediction_single_column:
  assumes init: "TFTModel_init icl ocl osz hid layers dr l heads mel hcs hcss share lk = Inr self"
      and width: "output_size self = Width (int w)"
      and valid: "valid_rollout net self n batch b w"
  shows "get_batch_prediction net 0 self n batch (output_chunk_length self) =
           Some (Inr (b, nat n, 1))"
proof -
  from init width have "rollout_width self w = 1"
    by (auto simp: TFTModel_init_def bind_err_def rollout_width_def
             split: option.splits if_splits)
  with get_batch_prediction_shape [OF valid] show ?thesis
    by simp
qed

theorem get_batch_prediction_single_column_witness:
  "(case TFTModel_init 5 2 (Some (Width 7)) 16 1 (1 / 10) (QuantileLoss default_quantiles)
           4 10 8 [] False None of
      Inl e \<Rightarrow> False
    | Inr self \<Rightarrow>
        (case create_model self (Some (5, 1), None, Some (5, 1), Some (2, 1), Some (2, 1)) [] of
           Inl e \<Rightarrow> False
         | Inr (m, h) \<Rightarrow>
             output_size self = Width (int 7) \<and>
             valid_rollout (network_of (pure_layers h) () m) self 5
               ((1, 5, 1), None, Some (1, 5, 1), Some (1, 5, 1), None) 1 7 \<and>
             get_batch_prediction (network_of (pure_layers h) () m) 0 self 5
               ((1, 5, 1), None, Some (1, 5, 1), Some (1, 5, 1), None)
               (output_chunk_length self) = Some (Inr (1, nat 5, 1))))"
proof -
  let ?self = "\<lparr> input_chunk_length = 5, output_chunk_length = 2, output_size = Width 7,
       hidden_size = 16, lstm_layers = 1, dropout = 1 / 10,
       loss_fn = QuantileLoss default_quantiles, attention_head_size = 4,
       max_encoder_length = 10, hidden_continuous_size = 8, hidden_continuous_sizes = [],
       share_single_variable_networks = False, likelihood = None \<rparr>"
  have init: "TFTModel_init 5 2 (Some (Width 7)) 16 1 (1 / 10) (QuantileLoss default_quantiles)
                4 10 8 [] False None = Inr ?self"
    by (simp add: TFTModel_init_def bind_err_def default_quantiles_def)
  have built: "(case create_model ?self (Some (5, 1), None, Some (5, 1), Some (2, 1), Some (2, 1)) [] of
                  Inl e \<Rightarrow> False
                | Inr (m, h) \<Rightarrow>
                    network_of (pure_layers h) () m
                      ((1, 5, 1), None, Some (1, 5, 1), Some (1, 2, 1)) =
                    Inr (Single (1, 2, 7)))"
    by code_simp
  then obtain m h where
    model: "create_model ?self (Some (5, 1), None, Some (5, 1), Some (2, 1), Some (2, 1)) [] =
              Inr (m, h)"
    and net: "network_of (pure_layers h) () m ((1, 5, 1), None, Some (1, 5, 1), Some (1, 2, 1)) =
                Inr (Single (1, 2, 7))"
    by (auto split: sum.splits prod.splits)
  have width: "output_size ?self = Width (int 7)"
    by simp
  have valid: "valid_rollout (network_of (pure_layers h) () m) ?self 5
                 ((1, 5, 1), None, Some (1, 5, 1), Some (1, 5, 1), None) 1 7"
    using net by (simp add: valid_rollout_def rollout_width_def)
  from get_batch_prediction_single_column [OF init width valid] init model width valid
  show ?thesis by simp
qed

text \<open>
  C3, as the specification words it, fails under the quantile loss: with an output width
  of 7 the rollout returns a tensor with one component, not seven.
\<close>

theorem get_batch_prediction_width_counterexample:
  "get_batch_prediction (forward_shape 2 7) 0
     \<lparr> input_chunk_length = 5, output_chunk_length = 2, output_size = Width 7,
       hidden_size = 16, lstm_layers = 1, dropout = 1 / 10,
       loss_fn = QuantileLoss default_quantiles, attention_head_size = 4,
       max_encoder_length = 10, hidden_continuous_size = 8, hidden_continuous_sizes = [],
       share_single_variable_networks = False, likelihood = None \<rparr>
     5 ((1, 5, 1), None, Some (1, 5, 1), Some (1, 5, 1), None) 2 = Some (Inr (1, 5, 1))"
  by code_simp

text \<open>
  C2 fails on the code for a roll size below \<^verbatim>\<open>output_chunk_length\<close>. With chunks of
  4 steps, a roll size of 2 and a horizon of 9, the chunks kept are 2, 1 and 4 steps
  long: the loop counts 4 steps for the second chunk and then cuts it to the shrunk roll
  size of 1. The tensor returned has 7 time steps, not 9, when the network returns 4
  steps on every call; a network that refuses the first call, whose future covariates
  span only 2 steps, makes the rollout raise.
\<close>

theorem get_batch_prediction_short_roll:
  "get_batch_prediction (forward_shape 4 1) 0
     \<lparr> input_chunk_length = 5, output_chunk_length = 4, output_size = Width 1,
       hidden_size = 16, lstm_layers = 1, dropout = 1 / 10,
       loss_fn = OtherLoss, attention_head_size = 4,
       max_encoder_length = 10, hidden_continuous_size = 8, hidden_continuous_sizes = [],
       share_single_variable_networks = False, likelihood = None \<rparr>
     9 ((1, 5, 1), None, Some (1, 5, 1), Some (1, 9, 1), None) 2 = Some (Inr (1, 7, 1)) \<and>
   get_batch_prediction (forward_shape_strict 5 4 1) 0
     \<lparr> input_chunk_length = 5, output_chunk_length = 4, output_size = Width 1,
       hidden_size = 16, lstm_layers = 1, dropout = 1 / 10,
       loss_fn = OtherLoss, attention_head_size = 4,
       max_encoder_length = 10, hidden_continuous_size = 8, hidden_continuous_sizes = [],
       share_single_variable_networks = False, likelihood = None \<rparr>
     9 ((1, 5, 1), None, Some (1, 5, 1), Some (1, 9, 1), None) 2 = Some (Inl RuntimeError)"
  by code_simp

section \<open>Shared per-feature sub-networks\<close>

lemma shared_second_loop:
  fixes mk :: "int \<Rightarrow> module_obj"
  assumes "fold (\<lambda>(name, input_size) (d, h).
                   if name \<notin> fst ` set d then
                     let (r, h') = alloc (mk input_size) h in (dict_set d name r, h')
                   else (d, h))
             kvs (d0, h0) = (d1, h1)"
      and "\<And>s. is_GatedResidualNetwork (mk s)"
  shows "map fst d1 = fold (\<lambda>k ks. if k \<in> set ks then ks else ks @ [k]) (map fst kvs) (map fst d0) \<and>
         (\<exists>ext. h1 = h0 @ ext \<and> (\<forall>obj \<in> set ext. is_GatedResidualNetwork obj)) \<and>
         (\<forall>r \<in> snd ` set d1. r \<in> snd ` set d0 \<or> (length h0 \<le> r \<and> r < length h1)) \<and>
         (distinct (map snd d0) \<and> (\<forall>r \<in> snd ` set d0. r < length h0) \<longrightarrow> distinct (map snd d1))"
  using assms(1)
proof (induction kvs arbitrary: d0 h0)
  case Nil
  then show ?case by simp
next
  case (Cons kv kvs)
  obtain name input_size where kv: "kv = (name, input_size)" by (cases kv)
  show ?case
  proof (cases "name \<in> fst ` set d0")
    case True
    with Cons.prems kv have "fold (\<lambda>(name, input_size) (d, h).
                   if name \<notin> fst ` set d then
                     let (r, h') = alloc (mk input_size) h in (dict_set d name r, h')
                   else (d, h)) kvs (d0, h0) = (d1, h1)"
      by simp
    from Cons.IH [OF this] True show ?thesis
      by (simp add: kv image_iff)
  next
    case False
    then have step: "dict_set d0 name (length h0) = d0 @ [(name, length h0)]"
      by (simp add: dict_set_def)
    with Cons.prems kv False have "fold (\<lambda>(name, input_size) (d, h).
                   if name \<notin> fst ` set d then
                     let (r, h') = alloc (mk input_size) h in (dict_set d name r, h')
                   else (d, h)) kvs (d0 @ [(name, length h0)], h0 @ [mk input_size]) = (d1, h1)"
      by (simp add: alloc_def)
    from Cons.IH [OF this] have ih:
      "map fst d1 = fold (\<lambda>k ks. if k \<in> set ks then ks else ks @ [k]) (map fst kvs)
                      (map fst (d0 @ [(name, length h0)]))"
      "\<exists>ext. h1 = (h0 @ [mk input_size]) @ ext \<and> (\<forall>obj \<in> set ext. is_GatedResidualNetwork obj)"
      "\<forall>r \<in> snd ` set d1. r \<in> snd ` set (d0 @ [(name, length h0)]) \<or>
          (length (h0 @ [mk input_size]) \<le> r \<and> r < length h1)"
      "distinct (map snd (d0 @ [(name, length h0)])) \<and>
         (\<forall>r \<in> snd ` set (d0 @ [(name, length h0)]). r < length (h0 @ [mk input_size])) \<longrightarrow>
       distinct (map snd d1)"
      by blast+
    have keys: "map fst d1 = fold (\<lambda>k ks. if k \<in> set ks then ks else ks @ [k])
                  (map fst (kv # kvs)) (map fst d0)"
      using ih(1) False by (simp add: kv image_iff)
    from ih(2) obtain ext where ext: "h1 = (h0 @ [mk input_size]) @ ext"
        "\<forall>obj \<in> set ext. is_GatedResidualNetwork obj"
      by blast
    have heap: "\<exists>ext'. h1 = h0 @ ext' \<and> (\<forall>obj \<in> set ext'. is_GatedResidualNetwork obj)"
      using ext assms(2) by (intro exI [of _ "mk input_size # ext"]) simp
    have refs: "\<forall>r \<in> snd ` set d1. r \<in> snd ` set d0 \<or> (length h0 \<le> r \<and> r < length h1)"
      using ih(3) ext(1) by (auto simp: image_iff)
    have dist: "distinct (map snd d0) \<and> (\<forall>r \<in> snd ` set d0. r < length h0) \<longrightarrow>
                distinct (map snd d1)"
      using ih(4) by (auto simp: image_iff less_Suc_eq)
    from keys heap refs dist show ?thesis by blast
  qed
qed

lemma shared_first_loop:
  fixes mk :: "int \<Rightarrow> module_obj"
  assumes "distinct (map fst kvs)" and "fst ` set kvs \<inter> fst ` set d0 = {}"
  shows "fold (\<lambda>(name, input_size) (d, h).
                 let (r, h') = alloc (mk input_size) h in (dict_set d name r, h'))
           kvs (d0, h0) =
         fold (\<lambda>(name, input_size) (d, h).
                 if name \<notin> fst ` set d then
                   let (r, h') = alloc (mk input_size) h in (dict_set d name r, h')
                 else (d, h))
           kvs (d0, h0)"
  using assms
proof (induction kvs arbitrary: d0 h0)
  case Nil
  show ?case by simp
next
  case (Cons kv kvs)
  obtain name input_size where kv: "kv = (name, input_size)" by (cases kv)
  from Cons.prems kv have fresh: "name \<notin> fst ` set d0"
    by auto
  then have step: "dict_set d0 name (length h0) = d0 @ [(name, length h0)]"
    by (simp add: dict_set_def)
  from Cons.prems kv have rest: "distinct (map fst kvs)"
      "fst ` set kvs \<inter> fst ` set (d0 @ [(name, length h0)]) = {}"
    by auto
  show ?case
    using Cons.IH [OF rest, of "h0 @ [mk input_size]"] fresh
    by (simp add: kv alloc_def step)
qed

lemma build_shared_single_variable_grns_props:
  assumes "build_shared_single_variable_grns (dict_comprehension f enc) (dict_comprehension f dec)
             hidden dr h0 = (d, h1)"
  shows "map fst d = fromkeys enc @ filter (\<lambda>k. k \<notin> set enc) (fromkeys dec) \<and>
         distinct (map snd d) \<and>
         (\<exists>ext. h1 = h0 @ ext \<and> (\<forall>obj \<in> set ext. is_GatedResidualNetwork obj)) \<and>
         (\<forall>r \<in> snd ` set d. length h0 \<le> r \<and> r < length h1)"
proof -
  let ?mk = "\<lambda>input_size. GatedResidualNetwork input_size (min input_size hidden) hidden None (Some dr)"
  let ?step2 = "\<lambda>(name, input_size) (d, h).
                   if name \<notin> fst ` set d then
                     let (r, h') = alloc (?mk input_size) h in (dict_set d name r, h')
                   else (d, h)"
  have keys_enc: "map fst (dict_comprehension f enc) = fromkeys enc"
    and keys_dec: "map fst (dict_comprehension f dec) = fromkeys dec"
    by (simp_all add: dict_comprehension_fromkeys comp_def)
  obtain d1 h' where first: "fold ?step2 (dict_comprehension f enc) ([], h0) = (d1, h')"
    by (cases "fold ?step2 (dict_comprehension f enc) ([], h0)")
  have loop1: "fold (\<lambda>(name, input_size) (d, h).
                 let (r, h') = alloc (?mk input_size) h in (dict_set d name r, h'))
           (dict_comprehension f enc) ([], h0) = (d1, h')"
    using shared_first_loop [of "dict_comprehension f enc" "[]" ?mk h0] first
    by (simp add: keys_enc distinct_fromkeys)
  from assms loop1 have second: "fold ?step2 (dict_comprehension f dec) (d1, h') = (d, h1)"
    by (simp add: build_shared_single_variable_grns_def)
  from shared_second_loop [OF first] have p1:
    "map fst d1 = fromkeys enc"
    "\<exists>ext. h' = h0 @ ext \<and> (\<forall>obj \<in> set ext. is_GatedResidualNetwork obj)"
    "\<forall>r \<in> snd ` set d1. length h0 \<le> r \<and> r < length h'"
    "distinct (map snd d1)"
    by (simp_all add: keys_enc insert_keys_fromkeys fromkeys_distinct distinct_fromkeys)
  from shared_second_loop [OF second] have p2:
    "map fst d = fold (\<lambda>k ks. if k \<in> set ks then ks else ks @ [k]) (fromkeys dec) (fromkeys enc)"
    "\<exists>ext. h1 = h' @ ext \<and> (\<forall>obj \<in> set ext. is_GatedResidualNetwork obj)"
    "\<forall>r \<in> snd ` set d. r \<in> snd ` set d1 \<or> (length h' \<le> r \<and> r < length h1)"
    "distinct (map snd d1) \<and> (\<forall>r \<in> snd ` set d1. r < length h') \<longrightarrow> distinct (map snd d)"
    by (simp_all add: keys_dec p1(1))
  have keys: "map fst d = fromkeys enc @ filter (\<lambda>k. k \<notin> set enc) (fromkeys dec)"
    using p2(1)
    by (simp add: insert_keys_fromkeys distinct_fromkeys fromkeys_distinct set_fromkeys)
  from p1(2) p2(2) obtain e1 e2 where e: "h' = h0 @ e1" "h1 = h' @ e2"
      "\<forall>obj \<in> set e1. is_GatedResidualNetwork obj" "\<forall>obj \<in> set e2. is_GatedResidualNetwork obj"
    by blast
  then have heap: "\<exists>ext. h1 = h0 @ ext \<and> (\<forall>obj \<in> set ext. is_GatedResidualNetwork obj)"
    by (intro exI [of _ "e1 @ e2"]) auto
  have refs: "\<forall>r \<in> snd ` set d. length h0 \<le> r \<and> r < length h1"
    using p1(3) p2(3) e(1,2) by fastforce
  from p1(3,4) p2(4) have "distinct (map snd d)" by blast
  with keys heap refs show ?thesis by blast
qed


lemma VariableSelectionNetwork_loop:
  assumes "fold (\<lambda>(name, input_size) (d, h).
                    case map_of supplied name of
                      Some r \<Rightarrow> (dict_set d name r, h)
                    | None \<Rightarrow>
                        let (r, h') = alloc (mk input_size) h in (dict_set d name r, h'))
             input_sizes (d0, h0) = (d1, h1)"
  shows "(\<exists>ext. h1 = h0 @ ext) \<and>
         (\<forall>name r. map_of supplied name = Some r \<and>
                    (name \<in> fst ` set input_sizes \<or> map_of d0 name = Some r) \<longrightarrow>
                    map_of d1 name = Some r)"
  using assms
proof (induction input_sizes arbitrary: d0 h0)
  case Nil
  then show ?case by simp
next
  case (Cons kv kvs)
  obtain name input_size where kv: "kv = (name, input_size)" by (cases kv)
  let ?step = "\<lambda>(name, input_size) (d, h).
                    case map_of supplied name of
                      Some r \<Rightarrow> (dict_set d name r, h)
                    | None \<Rightarrow>
                        let (r, h') = alloc (mk input_size) h in (dict_set d name r, h')"
  obtain d' h' where first: "?step kv (d0, h0) = (d', h')"
    by (cases "?step kv (d0, h0)")
  with Cons.prems have rest: "fold ?step kvs (d', h') = (d1, h1)"
    by simp
  from first kv have grow: "\<exists>ext. h' = h0 @ ext"
    by (auto simp: alloc_def split: option.splits)
  have keep: "map_of d' n = Some r"
    if "map_of supplied n = Some r" and "n = name \<or> map_of d0 n = Some r" for n r
    using first kv that by (auto simp: alloc_def map_of_dict_set split: option.splits)
  from Cons.IH [OF rest] have ih: "\<exists>ext. h1 = h' @ ext"
    "\<forall>n r. map_of supplied n = Some r \<and> (n \<in> fst ` set kvs \<or> map_of d' n = Some r) \<longrightarrow>
            map_of d1 n = Some r"
    by blast+
  show ?case
  proof (intro conjI allI impI)
    from grow ih(1) show "\<exists>ext. h1 = h0 @ ext" by auto
  next
    fix n r
    assume a: "map_of supplied n = Some r \<and>
               (n \<in> fst ` set (kv # kvs) \<or> map_of d0 n = Some r)"
    then have "n \<in> fst ` set kvs \<or> n = name \<or> map_of d0 n = Some r"
      by (auto simp: kv)
    with a keep have "n \<in> fst ` set kvs \<or> map_of d' n = Some r"
      by blast
    with a ih(2) show "map_of d1 n = Some r"
      by blast
  qed
qed

lemma VariableSelectionNetwork_init_shared:
  assumes "VariableSelectionNetwork_init input_sizes hidden dr ctx pre supplied h0 = (ref, h1)"
  shows "ref < length h1 \<and> (\<exists>ext. h1 = h0 @ ext) \<and>
         (\<forall>name r. map_of supplied name = Some r \<and> name \<in> fst ` set input_sizes \<longrightarrow>
                    map_of (single_variable_grns_of h1 ref) name = Some r)"
proof -
  let ?step = "\<lambda>(name, input_size) (d, h).
                    case map_of supplied name of
                      Some r \<Rightarrow> (dict_set d name r, h)
                    | None \<Rightarrow>
                        let (r, h') =
                              alloc (GatedResidualNetwork input_size (min input_size hidden)
                                       hidden None dr) h
                        in (dict_set d name r, h')"
  obtain grns h' where loop: "fold ?step input_sizes ([], h0) = (grns, h')"
    by (cases "fold ?step input_sizes ([], h0)")
  from assms loop have res: "ref = length h'"
      "h1 = h' @ [VariableSelectionNetwork input_sizes hidden dr ctx pre grns]"
    by (simp_all add: VariableSelectionNetwork_init_def alloc_def)
  from VariableSelectionNetwork_loop [OF loop] obtain ext where
    ext: "h' = h0 @ ext" and
    kept: "\<forall>name r. map_of supplied name = Some r \<and> name \<in> fst ` set input_sizes \<longrightarrow>
                     map_of grns name = Some r"
    by auto
  have "single_variable_grns_of h1 ref = grns"
    using res by (simp add: single_variable_grns_of_def)
  with res ext kept show ?thesis by auto
qed

lemma single_variable_grns_of_append:
  "r < length h \<Longrightarrow> single_variable_grns_of (h @ ext) r = single_variable_grns_of h r"
  by (simp add: single_variable_grns_of_def nth_append)

lemma TFTModule_init_shared:
  assumes "TFTModule_init v idim odim icl ocl osz hid layers dr heads mel hcs hcss True h0 =
             Inr (m, h)"
  shows "\<exists>h2 d h3 h4 h5 ext pre.
           build_shared_single_variable_grns
             (dict_comprehension (\<lambda>name. dict_get hcss name hcs)
                (time_varying_encoder_input (model_config v)))
             (dict_comprehension (\<lambda>name. dict_get hcss name hcs)
                (time_varying_decoder_input (model_config v))) hid dr h2 = (d, h3) \<and>
           shared_single_variable_grns m = Some d \<and>
           VariableSelectionNetwork_init
             (dict_comprehension (\<lambda>name. dict_get hcss name hcs)
                (time_varying_encoder_input (model_config v)))
             hid (Some dr) (Some hid) pre d h3 = (encoder_variable_selection m, h4) \<and>
           VariableSelectionNetwork_init
             (dict_comprehension (\<lambda>name. dict_get hcss name hcs)
                (time_varying_decoder_input (model_config v)))
             hid (Some dr) (Some hid) pre d h4 = (decoder_variable_selection m, h5) \<and>
           h = h5 @ ext"
proof -
  let ?sz = "\<lambda>name. dict_get hcss name hcs"
  let ?enc = "dict_comprehension ?sz (time_varying_encoder_input (model_config v))"
  let ?dec = "dict_comprehension ?sz (time_varying_decoder_input (model_config v))"
  obtain pre h1 where e1:
    "alloc_dict (\<lambda>name. Linear 1 (?sz name)) (reals_input (model_config v)) h0 = (pre, h1)"
    by (cases "alloc_dict (\<lambda>name. Linear 1 (?sz name)) (reals_input (model_config v)) h0")
  obtain sref h2 where e2:
    "VariableSelectionNetwork_init (dict_comprehension ?sz (static_input (model_config v)))
       hid (Some dr) None pre [] h1 = (sref, h2)"
    by (cases "VariableSelectionNetwork_init
                 (dict_comprehension ?sz (static_input (model_config v)))
                 hid (Some dr) None pre [] h1")
  obtain d h3 where e3: "build_shared_single_variable_grns ?enc ?dec hid dr h2 = (d, h3)"
    by (cases "build_shared_single_variable_grns ?enc ?dec hid dr h2")
  obtain eref h4 where e4:
    "VariableSelectionNetwork_init ?enc hid (Some dr) (Some hid) pre d h3 = (eref, h4)"
    by (cases "VariableSelectionNetwork_init ?enc hid (Some dr) (Some hid) pre d h3")
  obtain dref h5 where e5:
    "VariableSelectionNetwork_init ?dec hid (Some dr) (Some hid) pre d h4 = (dref, h5)"
    by (cases "VariableSelectionNetwork_init ?dec hid (Some dr) (Some hid) pre d h4")
  from assms have "shared_single_variable_grns m = Some d \<and>
                   encoder_variable_selection m = eref \<and>
                   decoder_variable_selection m = dref \<and> (\<exists>ext. h = h5 @ ext)"
    by (auto simp: TFTModule_init_def Let_def e1 e2 e3 e4 e5 alloc_def
             split: sum.splits prod.splits dest!: build_output_layer_extends)
  with e3 e4 e5 show ?thesis by blast
qed

text \<open>
  C5. When the module is built with \<^verbatim>\<open>share_single_variable_networks\<close> set, the shared
  map has the encoder features first and then the decoder features that are not encoder
  features, each with a sub-network of its own; and every feature that is both an
  encoder and a decoder variable is served, in the encoder gate and in the decoder gate,
  by the sub-network the shared map holds for it: one address, whose cell is a gated
  residual network.
\<close>

theorem shared_single_variable_networks:
  assumes "TFTModule_init v idim odim icl ocl osz hid layers dr heads mel hcs hcss True h0 =
             Inr (m, h)"
  shows "\<exists>d. shared_single_variable_grns m = Some d \<and>
              map fst d = fromkeys (encoder_variables m) @
                          filter (\<lambda>name. name \<notin> set (encoder_variables m))
                            (fromkeys (decoder_variables m)) \<and>
              distinct (map snd d) \<and>
              (\<forall>name \<in> set (encoder_variables m) \<inter> set (decoder_variables m).
                 \<exists>r. map_of d name = Some r \<and>
                     map_of (single_variable_grns_of h (encoder_variable_selection m)) name = Some r \<and>
                     map_of (single_variable_grns_of h (decoder_variable_selection m)) name = Some r \<and>
                     r < length h \<and> is_GatedResidualNetwork (h ! r))"
proof -
  let ?sz = "\<lambda>name. dict_get hcss name hcs"
  let ?encv = "time_varying_encoder_input (model_config v)"
  let ?decv = "time_varying_decoder_input (model_config v)"
  from assms have vars: "encoder_variables m = ?encv" "decoder_variables m = ?decv"
    by (auto simp: TFTModule_init_def Let_def encoder_variables_def decoder_variables_def
             split: sum.splits prod.splits)
  from TFTModule_init_shared [OF assms] obtain h2 d h3 h4 h5 ext pre where
    b: "build_shared_single_variable_grns (dict_comprehension ?sz ?encv)
          (dict_comprehension ?sz ?decv) hid dr h2 = (d, h3)"
    and sh: "shared_single_variable_grns m = Some d"
    and e: "VariableSelectionNetwork_init (dict_comprehension ?sz ?encv) hid (Some dr) (Some hid)
              pre d h3 = (encoder_variable_selection m, h4)"
    and dc: "VariableSelectionNetwork_init (dict_comprehension ?sz ?decv) hid (Some dr) (Some hid)
              pre d h4 = (decoder_variable_selection m, h5)"
    and h: "h = h5 @ ext"
    by blast
  from build_shared_single_variable_grns_props [OF b] obtain ext3 where
    keys: "map fst d = fromkeys ?encv @ filter (\<lambda>k. k \<notin> set ?encv) (fromkeys ?decv)"
    and dist: "distinct (map snd d)"
    and h3: "h3 = h2 @ ext3" "\<forall>obj \<in> set ext3. is_GatedResidualNetwork obj"
    and refs: "\<forall>r \<in> snd ` set d. length h2 \<le> r \<and> r < length h3"
    by blast
  from VariableSelectionNetwork_init_shared [OF e] obtain ext4 where
    er: "encoder_variable_selection m < length h4" and h4: "h4 = h3 @ ext4"
    and eg: "\<forall>name r. map_of d name = Some r \<and> name \<in> fst ` set (dict_comprehension ?sz ?encv) \<longrightarrow>
               map_of (single_variable_grns_of h4 (encoder_variable_selection m)) name = Some r"
    by blast
  from VariableSelectionNetwork_init_shared [OF dc] obtain ext5 where
    dr: "decoder_variable_selection m < length h5" and h5: "h5 = h4 @ ext5"
    and dg: "\<forall>name r. map_of d name = Some r \<and> name \<in> fst ` set (dict_comprehension ?sz ?decv) \<longrightarrow>
               map_of (single_variable_grns_of h5 (decoder_variable_selection m)) name = Some r"
    by blast
  have enc_grns: "single_variable_grns_of h (encoder_variable_selection m) =
                  single_variable_grns_of h4 (encoder_variable_selection m)"
    using single_variable_grns_of_append [OF er, of "ext5 @ ext"] by (simp add: h h5)
  have dec_grns: "single_variable_grns_of h (decoder_variable_selection m) =
                  single_variable_grns_of h5 (decoder_variable_selection m)"
    using single_variable_grns_of_append [OF dr, of ext] by (simp add: h)
  have names: "fst ` set (dict_comprehension ?sz ?encv) = set ?encv"
              "fst ` set (dict_comprehension ?sz ?decv) = set ?decv"
    by (simp_all add: dict_comprehension_fromkeys image_image set_fromkeys)
  have shared: "\<exists>r. map_of d name = Some r \<and>
                     map_of (single_variable_grns_of h (encoder_variable_selection m)) name = Some r \<and>
                     map_of (single_variable_grns_of h (decoder_variable_selection m)) name = Some r \<and>
                     r < length h \<and> is_GatedResidualNetwork (h ! r)"
    if name: "name \<in> set ?encv \<inter> set ?decv" for name
  proof -
    from name keys have "name \<in> fst ` set d"
      by (metis IntD1 Un_iff set_append set_fromkeys set_map)
    then obtain r where r: "map_of d name = Some r"
      by (metis map_of_eq_None_iff not_None_eq)
    then have "r \<in> snd ` set d"
      by (metis map_of_SomeD image_eqI snd_conv)
    with refs have range: "length h2 \<le> r" "r < length h3" by auto
    then have "h ! r = ext3 ! (r - length h2)" "r - length h2 < length ext3"
      by (auto simp: h h5 h4 h3(1) nth_append)
    with h3(2) have grn: "is_GatedResidualNetwork (h ! r)"
      by (metis nth_mem)
    from range have "r < length h"
      by (simp add: h h5 h4)
    with r grn eg dg name show ?thesis
      by (auto simp: names enc_grns dec_grns)
  qed
  show ?thesis
    using sh keys dist shared by (auto simp: vars)
qed

theorem shared_single_variable_networks_witness:
  "\<exists>m h d r.
     TFTModule_init
       \<lparr> input = [],
         model_config = \<lparr> reals_input = [''target_0'', ''future_covariate_0''],
           time_varying_encoder_input = [''target_0'', ''future_covariate_0''],
           time_varying_decoder_input = [''future_covariate_0''], static_input = [] \<rparr> \<rparr>
       2 1 5 2 (Width 7) 16 1 (1 / 10) 4 10 8 [] True [] = Inr (m, h) \<and>
     ''future_covariate_0'' \<in> set (encoder_variables m) \<inter> set (decoder_variables m) \<and>
     shared_single_variable_grns m = Some d \<and>
     map_of d ''future_covariate_0'' = Some r \<and>
     map_of (single_variable_grns_of h (encoder_variable_selection m)) ''future_covariate_0'' = Some r \<and>
     map_of (single_variable_grns_of h (decoder_variable_selection m)) ''future_covariate_0'' = Some r \<and>
     is_GatedResidualNetwork (h ! r)"
proof -
  obtain m h where e: "TFTModule_init
       \<lparr> input = [],
         model_config = \<lparr> reals_input = [''target_0'', ''future_covariate_0''],
           time_varying_encoder_input = [''target_0'', ''future_covariate_0''],
           time_varying_decoder_input = [''future_covariate_0''], static_input = [] \<rparr> \<rparr>
       2 1 5 2 (Width 7) 16 1 (1 / 10) 4 10 8 [] True [] = Inr (m, h)"
    by (simp add: TFTModule_init_def build_output_layer_def Let_def split_beta)
  then have vars: "encoder_variables m = [''target_0'', ''future_covariate_0'']"
      "decoder_variables m = [''future_covariate_0'']"
    by (auto simp: TFTModule_init_def Let_def encoder_variables_def decoder_variables_def
             split: sum.splits prod.splits)
  then have name: "''future_covariate_0'' \<in> set (encoder_variables m) \<inter> set (decoder_variables m)"
    by simp
  from shared_single_variable_networks [OF e] name e show ?thesis
    by blast
qed

section \<open>The forward pass and the state of the layers\<close>

lemma state_preserving_pure_op: "state_preserving (pure_op r)"
  by (simp add: state_preserving_def pure_op_def)

lemma state_preserving_bind_st:
  assumes "state_preserving m" and "\<And>a. state_preserving (f a)"
  shows "state_preserving (bind_st m f)"
proof -
  have "snd (bind_st m f s) = s" for s
  proof (cases "m s")
    case (Pair r s')
    with assms(1) have s': "s' = s"
      by (metis state_preserving_def snd_conv)
    show ?thesis
    proof (cases r)
      case (Inl e)
      with Pair s' show ?thesis by (simp add: bind_st_def)
    next
      case (Inr a)
      with Pair s' assms(2) [of a] show ?thesis
        by (simp add: bind_st_def state_preserving_def)
    qed
  qed
  then show ?thesis by (simp add: state_preserving_def)
qed

lemma state_preserving_call_layer:
  assumes "\<forall>r s args. snd (layers r s args) = s"
  shows "state_preserving (call_layer layers r args)"
  using assms by (simp add: state_preserving_def call_layer_def)

lemma state_preserving_call1:
  assumes "\<forall>r s args. snd (layers r s args) = s"
  shows "state_preserving (call1 layers r args)"
  unfolding call1_def
  by (intro state_preserving_bind_st state_preserving_call_layer [OF assms]
        state_preserving_pure_op)

lemma state_preserving_call_each:
  assumes "\<forall>r s args. snd (layers r s args) = s"
  shows "state_preserving (call_each layers rs x)"
proof (induction rs)
  case Nil
  show ?case by (simp add: state_preserving_pure_op)
next
  case (Cons r rs)
  show ?case
    by (simp, intro state_preserving_bind_st state_preserving_call1 [OF assms] Cons
          state_preserving_pure_op)
qed

lemma state_preserving_case_prod:
  assumes "\<And>a b. state_preserving (f a b)"
  shows "state_preserving (case p of (a, b) \<Rightarrow> f a b)"
  using assms by (cases p) simp

lemma state_preserving_forward:
  assumes "\<forall>r s args. snd (layers r s args) = s"
  shows "state_preserving (forward layers self x)"
  unfolding forward_def Let_def
  by (cases x)
     (auto intro!: state_preserving_bind_st state_preserving_pure_op
             state_preserving_call_layer [OF assms] state_preserving_call1 [OF assms]
             state_preserving_call_each [OF assms] state_preserving_case_prod
           split: output_layer.splits)

text \<open>
  The state is passed through every call: with layers that count their calls, the forward
  pass for one target makes eighteen of them.
\<close>

lemma forward_counts_calls:
  "(case TFTModule_init
           \<lparr> input = [],
             model_config = \<lparr> reals_input = [''target_0'', ''future_covariate_0''],
               time_varying_encoder_input = [''target_0'', ''future_covariate_0''],
               time_varying_decoder_input = [''future_covariate_0''], static_input = [] \<rparr> \<rparr>
           2 1 5 2 (Width 7) 16 1 (1 / 10) 4 10 8 [] False [] of
      Inl e \<Rightarrow> False
    | Inr (m, h) \<Rightarrow>
        forward (counting_layers h) m (Some [3, 5, 1], None, Some [3, 5, 1], Some [3, 2, 1]) 0 =
          (Inr (Tensor [3, 2, 7]), 18))"
  by code_simp

text \<open>
  C10. The learned parameters and every other piece of internal state live in the state
  of the layers; the module's own attributes are configuration values and the addresses
  of the layers, which \<^verbatim>\<open>forward\<close> takes as a value and never returns. With the layers of
  the specification, whose calls write nothing, the forward pass returns the state as it
  received it, for every module, every input and every outcome, an exception included.
  And \<^verbatim>\<open>forward\<close> adds no change of its own, whatever the layers do: the state it
  leaves is the state that the calls of the layers it made, replayed in their order,
  lead to.
\<close>

theorem forward_leaves_state:
  "snd (forward (pure_layers h) self x s) = s \<and>
   fst (snd (forward (traced layers) self x (s, []))) =
     replay layers (snd (snd (forward (traced layers) self x (s, [])))) s"
proof
  have "\<forall>r s args. snd (pure_layers h r (s :: 'a) args) = s"
    by (simp add: pure_layers_def)
  from state_preserving_forward [OF this] show "snd (forward (pure_layers h) self x s) = s"
    by (simp add: state_preserving_def)
next
  let ?st = "(s, [] :: layer_call list)"
  have "\<exists>calls. snd (snd (forward (traced layers) self x ?st)) = snd ?st @ calls \<and>
          fst (snd (forward (traced layers) self x ?st)) = replay layers calls (fst ?st)"
    using logs_calls_forward [of layers self x] unfolding logs_calls_def by (rule spec)
  then show "fst (snd (forward (traced layers) self x (s, []))) =
     replay layers (snd (snd (forward (traced layers) self x (s, [])))) s"
    by auto
qed

theorem forward_leaves_state_witness:
  "(case TFTModule_init
           \<lparr> input = [],
             model_config = \<lparr> reals_input = [''target_0'', ''future_covariate_0''],
               time_varying_encoder_input = [''target_0'', ''future_covariate_0''],
               time_varying_decoder_input = [''future_covariate_0''], static_input = [] \<rparr> \<rparr>
           2 1 5 2 (Width 7) 16 1 (1 / 10) 4 10 8 [] False [] of
      Inl e \<Rightarrow> False
    | Inr (m, h) \<Rightarrow>
        forward (pure_layers h) m (Some [3, 5, 1], None, Some [3, 5, 1], Some [3, 2, 1]) (0 :: nat) =
          (Inr (Tensor [3, 2, 7]), 0))"
proof -
  let ?init = "TFTModule_init
           \<lparr> input = [],
             model_config = \<lparr> reals_input = [''target_0'', ''future_covariate_0''],
               time_varying_encoder_input = [''target_0'', ''future_covariate_0''],
               time_varying_decoder_input = [''future_covariate_0''], static_input = [] \<rparr> \<rparr>
           2 1 5 2 (Width 7) 16 1 (1 / 10) 4 10 8 [] False []"
  let ?x = "(Some [3, 5, 1], None, Some [3, 5, 1], Some [3, 2, 1])"
  have val: "(case ?init of Inl e \<Rightarrow> False
              | Inr (m, h) \<Rightarrow> fst (forward (pure_layers h) m ?x (0 :: nat)) = Inr (Tensor [3, 2, 7]))"
    by code_simp
  have state: "snd (forward (pure_layers h) m ?x (0 :: nat)) = 0" for m h
    using forward_leaves_state [of h m ?x 0] by (rule conjunct1)
  show ?thesis
    using val state by (auto simp: prod_eq_iff split: sum.splits prod.splits)
qed

end
